theory Spec2Isabelle
  imports Complex_Main
begin

section \<open>Numbers, keys and errors\<close>

text \<open>
  The solver computes with IEEE double precision floats. They are modelled as the real
  numbers of HOL: every arithmetic operation is the exact one. Where the float computation
  leaves the finite reals (a ZeroDivisionError of Python, an \<open>inf\<close> or \<open>nan\<close> of numpy, a
  complex power of a negative base) the model stops with \<open>ArithmeticFault\<close>; in particular
  it does not follow a \<open>nan\<close> through the rest of an operation.

  The state dictionary of the solver mixes integer keys (1, 2, 3, 4) and string keys
  ("2s", "2a", "2*", ...); \<open>key\<close> keeps both kinds apart as Python does.
\<close>

datatype key = IntKey int | StrKey string

datatype error =
    ValueError string
  | KeyError key
  | AttributeError string
  | ArithmeticFault

definition bindE :: "error + 'a \<Rightarrow> ('a \<Rightarrow> error + 'b) \<Rightarrow> error + 'b" where
  "bindE m f = (case m of Inl e \<Rightarrow> Inl e | Inr x \<Rightarrow> f x)"

definition fdiv :: "real \<Rightarrow> real \<Rightarrow> error + real" where
  "fdiv a b = (if b = 0 then Inl ArithmeticFault else Inr (a / b))"

text \<open>
  Python's \<open>x ** y\<close> on floats: a positive base gives the real power; \<open>0.0 ** y\<close> is 0 for
  positive \<open>y\<close>, 1 for \<open>y = 0\<close> and raises for negative \<open>y\<close>; a negative base gives a real
  number only for an integral exponent.
\<close>

definition fpow :: "real \<Rightarrow> real \<Rightarrow> error + real" where
  "fpow x y =
     (if 0 < x then Inr (x powr y)
      else if x = 0 then (if 0 < y then Inr 0 else if y = 0 then Inr 1 else Inl ArithmeticFault)
      else if y = of_int \<lfloor>y\<rfloor> then Inr (x powi \<lfloor>y\<rfloor>)
      else Inl ArithmeticFault)"

definition flog :: "real \<Rightarrow> error + real" where
  "flog x = (if 0 < x then Inr (ln x) else Inl ArithmeticFault)"

definition fsqrt :: "real \<Rightarrow> error + real" where
  "fsqrt x = (if 0 \<le> x then Inr (sqrt x) else Inl ArithmeticFault)"

section \<open>Unit conversion (utils/converters.py)\<close>

definition celsius_to_kelvin :: "real \<Rightarrow> real" where
  "celsius_to_kelvin T_celsius = T_celsius + 273.15"

definition kelvin_to_celsius :: "real \<Rightarrow> real" where
  "kelvin_to_celsius T_kelvin = T_kelvin - 273.15"

definition bar_to_pascal :: "real \<Rightarrow> real" where
  "bar_to_pascal p_bar = p_bar * 100000"

definition pascal_to_bar :: "real \<Rightarrow> real" where
  "pascal_to_bar p_pascal = p_pascal / 100000"

section \<open>Gas properties (models/gas\_properties.py)\<close>

record gas_species =
  g_name :: string
  g_M :: real
  g_R :: real
  g_kappa_approx :: real
  g_cp_coeffs :: "real \<times> real \<times> real \<times> real"
  g_cp_const :: real
  g_T_range :: "real \<times> real"

definition GAS_PROPERTIES :: "string \<rightharpoonup> gas_species" where
  "GAS_PROPERTIES =
     [''air'' \<mapsto>
        \<lparr>g_name = ''Luft'', g_M = 28.9647, g_R = 287.058, g_kappa_approx = 1.4,
         g_cp_coeffs = (1047.63, - 0.372589, 0.000945304, - 0.000000602409),
         g_cp_const = 1005, g_T_range = (200, 1600)\<rparr>,
      ''helium'' \<mapsto>
        \<lparr>g_name = ''Helium'', g_M = 4.0026, g_R = 2077.1, g_kappa_approx = 1.667,
         g_cp_coeffs = (5193, 0, 0, 0),
         g_cp_const = 5193, g_T_range = (200, 2000)\<rparr>,
      ''nitrogen'' \<mapsto>
        \<lparr>g_name = ''Stickstoff'', g_M = 28.0134, g_R = 296.8, g_kappa_approx = 1.4,
         g_cp_coeffs = (1041, - 0.29, 0.0007, - 0.0000005),
         g_cp_const = 1040, g_T_range = (200, 1600)\<rparr>,
      ''carbon_dioxide'' \<mapsto>
        \<lparr>g_name = ''Kohlendioxid'', g_M = 44.01, g_R = 188.9, g_kappa_approx = 1.3,
         g_cp_coeffs = (820, 1.2, - 0.0005, 0.00000007),
         g_cp_const = 846, g_T_range = (200, 1600)\<rparr>]"

text \<open>\<open>GAS_PROPERTIES[gas]\<close>: an unknown key raises KeyError.\<close>

definition gas_entry :: "string \<Rightarrow> error + gas_species" where
  "gas_entry gas_key =
     (case GAS_PROPERTIES gas_key of
        None \<Rightarrow> Inl (KeyError (StrKey gas_key))
      | Some g \<Rightarrow> Inr g)"

definition cp :: "real \<Rightarrow> string \<Rightarrow> bool \<Rightarrow> error + real" where
  "cp T gas_key use_const =
     bindE (gas_entry gas_key) (\<lambda>g.
       if use_const then Inr (g_cp_const g)
       else (case g_cp_coeffs g of (a, b, c, d) \<Rightarrow> Inr (a + b * T + c * T ^ 2 + d * T ^ 3)))"

definition cp_mean :: "real \<Rightarrow> real \<Rightarrow> string \<Rightarrow> bool \<Rightarrow> error + real" where
  "cp_mean T1 T2 gas_key use_const =
     (if use_const then bindE (gas_entry gas_key) (\<lambda>g. Inr (g_cp_const g))
      else bindE (cp T1 gas_key False) (\<lambda>c1.
           bindE (cp T2 gas_key False) (\<lambda>c2. Inr ((c1 + c2) / 2))))"

definition cv :: "real \<Rightarrow> string \<Rightarrow> bool \<Rightarrow> error + real" where
  "cv T gas_key use_const =
     bindE (gas_entry gas_key) (\<lambda>g.
     bindE (cp T gas_key use_const) (\<lambda>c. Inr (c - g_R g)))"

definition kappa :: "real \<Rightarrow> string \<Rightarrow> bool \<Rightarrow> error + real" where
  "kappa T gas_key use_const =
     (if use_const then bindE (gas_entry gas_key) (\<lambda>g. Inr (g_kappa_approx g))
      else bindE (cp T gas_key False) (\<lambda>c.
           bindE (cv T gas_key False) (\<lambda>c'. fdiv c c')))"

definition kappa_mean :: "real \<Rightarrow> real \<Rightarrow> string \<Rightarrow> bool \<Rightarrow> error + real" where
  "kappa_mean T1 T2 gas_key use_const =
     (if use_const then bindE (gas_entry gas_key) (\<lambda>g. Inr (g_kappa_approx g))
      else bindE (kappa T1 gas_key False) (\<lambda>k1.
           bindE (kappa T2 gas_key False) (\<lambda>k2. Inr ((k1 + k2) / 2))))"

definition specific_volume :: "real \<Rightarrow> real \<Rightarrow> string \<Rightarrow> error + real" where
  "specific_volume pr T gas_key =
     bindE (gas_entry gas_key) (\<lambda>g. fdiv (g_R g * T) pr)"

section \<open>The solver object (models/joule\_process.py)\<close>

text \<open>
  A thermodynamic state is the dictionary \<open>{"p", "T", "v", "h", "s"}\<close>. A calculation step
  keeps its title, its numeric result and its category; the formula and the calculation
  strings of a step are formatted text and are left out. Titles are written in ASCII
  (the source uses subscripts and Greek letters). The dictionary \<open>step_categories\<close> groups
  the same steps by category and is not stored a second time.
\<close>

record tstate =
  p_val :: real
  T_val :: real
  v_val :: real
  h_val :: real
  s_val :: real

record step =
  title :: string
  result :: "real option"
  category :: string

text \<open>
  The attributes \<open>cp_const\<close>, \<open>kappa\<close> and \<open>cv_const\<close> exist only on a solver constructed
  with \<open>use_const_cp\<close>; reading a missing attribute raises AttributeError.
\<close>

record solver =
  gas :: string
  use_const_cp :: bool
  steps :: "step list"
  states :: "key \<rightharpoonup> tstate"
  self_R :: real
  cp_const :: "real option"
  self_kappa :: "real option"
  cv_const :: "real option"
  regeneration :: bool
  reg_eff :: real
  compressor_efficiency :: real
  turbine_efficiency :: real
  mass_flow :: "real option"
  intercooling :: bool
  intercooling_temperature :: "real option"
  intercooling_pressure_ratio :: "real option"

text \<open>
  A method of the solver mutates the object and either returns a value or raises; the
  mutations made before a raise persist. A method is therefore a function from the
  solver to a result and the solver after the call.
\<close>

type_synonym 'a calc = "solver \<Rightarrow> (error + 'a) \<times> solver"

definition ret :: "'a \<Rightarrow> 'a calc" where
  "ret x slv = (Inr x, slv)"

definition raise :: "error \<Rightarrow> 'a calc" where
  "raise e slv = (Inl e, slv)"

definition lift :: "error + 'a \<Rightarrow> 'a calc" where
  "lift r slv = (r, slv)"

definition bnd :: "'a calc \<Rightarrow> ('a \<Rightarrow> 'b calc) \<Rightarrow> 'b calc" where
  "bnd m f slv =
     (case m slv of
        (Inl e, slv') \<Rightarrow> (Inl e, slv')
      | (Inr x, slv') \<Rightarrow> f x slv')"

definition attr :: "string \<Rightarrow> 'a option \<Rightarrow> 'a calc" where
  "attr nm a = (case a of None \<Rightarrow> raise (AttributeError nm) | Some x \<Rightarrow> ret x)"

definition add_step :: "string \<Rightarrow> real option \<Rightarrow> string \<Rightarrow> unit calc" where
  "add_step ttl res cat slv =
     (Inr (), slv\<lparr>steps := steps slv @ [\<lparr>title = ttl, result = res, category = cat\<rparr>]\<rparr>)"

definition get_state :: "key \<Rightarrow> tstate calc" where
  "get_state k slv =
     (case states slv k of
        None \<Rightarrow> (Inl (KeyError k), slv)
      | Some st \<Rightarrow> (Inr st, slv))"

definition set_state :: "key \<Rightarrow> tstate \<Rightarrow> unit calc" where
  "set_state k st slv = (Inr (), slv\<lparr>states := (states slv)(k \<mapsto> st)\<rparr>)"

definition has_state :: "solver \<Rightarrow> key \<Rightarrow> bool" where
  "has_state slv k = (states slv k \<noteq> None)"

text \<open>
  A method reads the attributes of the object it is called on: \<open>with_self\<close> passes the
  solver at the time of the call to the body of the method. None of the methods below
  changes an attribute that it reads later, except the assignments of \<open>set_parameters\<close>,
  which are an explicit \<open>modify\<close>.
\<close>

definition with_self :: "(solver \<Rightarrow> 'a calc) \<Rightarrow> 'a calc" where
  "with_self F slv = F slv slv"

definition modify :: "(solver \<Rightarrow> solver) \<Rightarrow> unit calc" where
  "modify f slv = (Inr (), f slv)"

definition init :: "string \<Rightarrow> bool \<Rightarrow> error + solver" where
  "init gas_key use_const =
     bindE (gas_entry gas_key) (\<lambda>g.
       Inr \<lparr>gas = gas_key, use_const_cp = use_const, steps = [], states = Map.empty,
            self_R = g_R g,
            cp_const = (if use_const then Some (g_cp_const g) else None),
            self_kappa = (if use_const then Some (g_kappa_approx g) else None),
            cv_const = (if use_const then Some (g_cp_const g - g_R g) else None),
            regeneration = False, reg_eff = 0,
            compressor_efficiency = 1, turbine_efficiency = 1,
            mass_flow = None,
            intercooling = False, intercooling_temperature = None,
            intercooling_pressure_ratio = None\<rparr>)"

definition set_parameters ::
    "bool \<Rightarrow> real \<Rightarrow> real \<Rightarrow> real \<Rightarrow> real option \<Rightarrow> bool \<Rightarrow> real option \<Rightarrow> real option
      \<Rightarrow> unit calc" where
  "set_parameters regen reff ceff teff mflow icool ictemp icratio =
     with_self (\<lambda>slv.
     bnd (modify (\<lambda>s. s\<lparr>regeneration := regen, reg_eff := reff,
                          compressor_efficiency := ceff, turbine_efficiency := teff,
                          mass_flow := mflow, intercooling := icool,
                          intercooling_temperature := ictemp,
                          intercooling_pressure_ratio := icratio\<rparr>)) (\<lambda>_.
     bnd (lift (gas_entry (gas slv))) (\<lambda>_.
     bnd (add_step ''Parameter fuer den JOULE-Prozess'' None ''Allgemein'') (\<lambda>_.
     if icool then add_step ''Parameter fuer die Zwischenkuehlung'' None ''Zwischenkuehlung''
     else ret ()))))"

subsection \<open>State 1\<close>

definition calculate_state_1 :: "real \<Rightarrow> real \<Rightarrow> unit calc" where
  "calculate_state_1 p1 T1 =
     with_self (\<lambda>slv.
     bnd (add_step ''Zustand 1 (Verdichtereintritt)'' None ''Zustand 1'') (\<lambda>_.
     bnd (lift (specific_volume p1 T1 (gas slv))) (\<lambda>v1.
     bnd (add_step ''Spezifisches Volumen v1'' (Some v1) ''Zustand 1'') (\<lambda>_.
     bnd (add_step ''Spezifische Enthalpie h1'' (Some 0) ''Zustand 1'') (\<lambda>_.
     bnd (add_step ''Spezifische Entropie s1'' (Some 0) ''Zustand 1'') (\<lambda>_.
     set_state (IntKey 1) \<lparr>p_val = p1, T_val = T1, v_val = v1, h_val = 0, s_val = 0\<rparr>))))))"

subsection \<open>Recurring expressions\<close>

text \<open>
  Four expressions occur in several methods of the source; each is written once here.
  \<open>isentropic_temperature T\<^sub>a p\<^sub>a p\<^sub>b k\<close> is \<open>T_a * (p_b/p_a)**((k-1)/k)\<close>;
  \<open>kappa_estimate\<close> is \<open>kappa_mean(T_a, T_a * (p_b/p_a)**0.2, gas)\<close>;
  \<open>entropy_change c T\<^sub>b T\<^sub>a R p\<^sub>b p\<^sub>a\<close> is \<open>c * np.log(T_b/T_a) - R * np.log(p_b/p_a)\<close>;
  \<open>entropy_change_isobaric c T\<^sub>b T\<^sub>a\<close> is \<open>c * np.log(T_b/T_a)\<close>.
\<close>

definition isentropic_temperature :: "real \<Rightarrow> real \<Rightarrow> real \<Rightarrow> real \<Rightarrow> error + real" where
  "isentropic_temperature Ta pa pb k =
     bindE (fdiv pb pa) (\<lambda>r.
     bindE (fdiv (k - 1) k) (\<lambda>ex.
     bindE (fpow r ex) (\<lambda>pw. Inr (Ta * pw))))"

definition kappa_estimate :: "string \<Rightarrow> real \<Rightarrow> real \<Rightarrow> real \<Rightarrow> error + real" where
  "kappa_estimate gas_key Ta pa pb =
     bindE (fdiv pb pa) (\<lambda>r.
     bindE (fpow r 0.2) (\<lambda>pw. kappa_mean Ta (Ta * pw) gas_key False))"

definition entropy_change :: "real \<Rightarrow> real \<Rightarrow> real \<Rightarrow> real \<Rightarrow> real \<Rightarrow> real \<Rightarrow> error + real" where
  "entropy_change c Tb Ta R pb pa =
     bindE (fdiv Tb Ta) (\<lambda>q.
     bindE (flog q) (\<lambda>l1.
     bindE (fdiv pb pa) (\<lambda>r.
     bindE (flog r) (\<lambda>l2. Inr (c * l1 - R * l2)))))"

definition entropy_change_isobaric :: "real \<Rightarrow> real \<Rightarrow> real \<Rightarrow> error + real" where
  "entropy_change_isobaric c Tb Ta =
     bindE (fdiv Tb Ta) (\<lambda>q.
     bindE (flog q) (\<lambda>l. Inr (c * l)))"

subsection \<open>State 2, single stage\<close>

definition calculate_state_2_isentropic :: "real \<Rightarrow> tstate calc" where
  "calculate_state_2_isentropic p2 =
     with_self (\<lambda>slv.
     (if \<not> has_state slv (IntKey 1)
      then raise (ValueError ''Zustand 1 muss zuerst berechnet werden.'')
      else
     bnd (get_state (IntKey 1)) (\<lambda>st1.
     let p1 = p_val st1; T1 = T_val st1 in
     bnd (add_step ''Zustand 2s (isentroper Verdichteraustritt)'' None ''Allgemein'') (\<lambda>_.
     bnd (if use_const_cp slv then attr ''kappa'' (self_kappa slv)
          else lift (kappa_estimate (gas slv) T1 p1 p2)) (\<lambda>k.
     bnd (add_step ''Isentropenexponent kappa fuer die Verdichtung'' (Some k) ''Allgemein'') (\<lambda>_.
     bnd (lift (isentropic_temperature T1 p1 p2 k)) (\<lambda>T2s.
     bnd (add_step ''Temperatur T2s (isentrop)'' (Some T2s) ''Allgemein'') (\<lambda>_.
     bnd (add_step ''Temperatur T2s in Grad C'' (Some (kelvin_to_celsius T2s)) ''Allgemein'') (\<lambda>_.
     bnd (lift (specific_volume p2 T2s (gas slv))) (\<lambda>v2s.
     bnd (add_step ''Spezifisches Volumen v2s'' (Some v2s) ''Allgemein'') (\<lambda>_.
     bnd (if use_const_cp slv then attr ''cp_const'' (cp_const slv)
          else lift (cp_mean T1 T2s (gas slv) False)) (\<lambda>cp_val.
     let dh = cp_val * (T2s - T1) in
     bnd (add_step ''Spezifische Waermekapazitaet cp'' (Some cp_val) ''Allgemein'') (\<lambda>_.
     bnd (add_step ''Enthalpiedifferenz dh12s'' (Some dh) ''Allgemein'') (\<lambda>_.
     let h2s = h_val st1 + dh in
     bnd (add_step ''Spezifische Enthalpie h2s'' (Some h2s) ''Allgemein'') (\<lambda>_.
     let s2s = s_val st1 in
     bnd (add_step ''Spezifische Entropie s2s'' (Some s2s) ''Allgemein'') (\<lambda>_.
     ret \<lparr>p_val = p2, T_val = T2s, v_val = v2s, h_val = h2s, s_val = s2s\<rparr>))))))))))))))))"

text \<open>
  The part of \<open>calculate_state_2\<close> after the isentropic state has been stored under "2s":
  the efficiency correction, the specific volume, the entropy and the store under 2.
\<close>

definition calculate_state_2_real :: "real \<Rightarrow> tstate \<Rightarrow> unit calc" where
  "calculate_state_2_real p2 state_2s =
     with_self (\<lambda>slv.
     bnd (get_state (IntKey 1)) (\<lambda>st1.
     let h1 = h_val st1; h2s = h_val state_2s; T1 = T_val st1; T2s = T_val state_2s in
     bnd (add_step ''Zustand 2 (realer Verdichteraustritt)'' None ''Allgemein'') (\<lambda>_.
     bnd (if compressor_efficiency slv < 1 then
            bnd (if use_const_cp slv then attr ''cp_const'' (cp_const slv)
                 else bnd (lift (fdiv (h2s - h1) (T2s - T1))) (\<lambda>cp_val.
                      bnd (add_step ''Effektiver cp-Wert fuer isentrope Verdichtung''
                             (Some cp_val) ''Allgemein'') (\<lambda>_. ret cp_val))) (\<lambda>cp_val.
            let dT_isentrop = T2s - T1 in
            bnd (lift (fdiv dT_isentrop (compressor_efficiency slv))) (\<lambda>dT_real.
            bnd (add_step ''Reale Temperaturaenderung dT12'' (Some dT_real) ''Allgemein'') (\<lambda>_.
            let T2 = T1 + dT_real in
            bnd (add_step ''Temperatur T2'' (Some T2) ''Allgemein'') (\<lambda>_.
            let dh_real = cp_val * dT_real in
            bnd (add_step ''Reale Enthalpieaenderung dh12'' (Some dh_real) ''Allgemein'') (\<lambda>_.
            let h2 = h1 + dh_real in
            bnd (add_step ''Spezifische Enthalpie h2'' (Some h2) ''Allgemein'') (\<lambda>_.
            ret (T2, h2)))))))
          else
            bnd (add_step ''Temperatur und Enthalpie T2, h2'' (Some T2s) ''Allgemein'') (\<lambda>_.
            ret (T2s, h2s))) (\<lambda>(T2, h2).
     bnd (add_step ''Temperatur T2 in Grad C'' (Some (kelvin_to_celsius T2)) ''Allgemein'') (\<lambda>_.
     bnd (lift (specific_volume p2 T2 (gas slv))) (\<lambda>v2.
     bnd (add_step ''Spezifisches Volumen v2'' (Some v2) ''Allgemein'') (\<lambda>_.
     bnd (if use_const_cp slv then
            bnd (attr ''cp_const'' (cp_const slv)) (\<lambda>c.
            lift (entropy_change c T2 T1 (self_R slv) p2 (p_val st1)))
          else
            bnd (lift (cp_mean T1 T2 (gas slv) False)) (\<lambda>cp_m.
            lift (entropy_change cp_m T2 T1 (self_R slv) p2 (p_val st1)))) (\<lambda>ds.
     bnd (add_step ''Entropieaenderung ds12'' (Some ds) ''Allgemein'') (\<lambda>_.
     let s2 = s_val st1 + ds in
     bnd (add_step ''Spezifische Entropie s2'' (Some s2) ''Allgemein'') (\<lambda>_.
     set_state (IntKey 2)
       \<lparr>p_val = p2, T_val = T2, v_val = v2, h_val = h2, s_val = s2\<rparr>))))))))))"

subsection \<open>State 2, two stages with intercooling\<close>

text \<open>
  One compression stage of \<open>calculate_state_2_with_intercooling\<close>, from the state
  \<open>(pa, Ta, ha, sa)\<close> to the pressure \<open>pb\<close>. The source writes this block twice, for
  1 \<rightarrow> 2a and for 2b \<rightarrow> 2c; the two copies differ in the step titles \<open>(t1, t2, t3)\<close>, the
  category and the keys \<open>kr\<close> (real state) and \<open>ks\<close> (isentropic counterpart) under
  which the results are stored. It returns the real state.
\<close>

definition compression_stage ::
    "string \<times> string \<times> string \<Rightarrow> string \<Rightarrow> key \<Rightarrow> key
      \<Rightarrow> real \<Rightarrow> real \<Rightarrow> real \<Rightarrow> real \<Rightarrow> real \<Rightarrow> tstate calc" where
  "compression_stage ttls cat kr ks pa Ta ha sa pb =
     with_self (\<lambda>slv.
     (case ttls of (t1, t2, t3) \<Rightarrow>
     bnd (if use_const_cp slv then attr ''kappa'' (self_kappa slv)
          else lift (kappa_estimate (gas slv) Ta pa pb)) (\<lambda>k.
     bnd (lift (isentropic_temperature Ta pa pb k)) (\<lambda>Tb_s.
     bnd (add_step t1 (Some Tb_s) cat) (\<lambda>_.
     bnd (if compressor_efficiency slv < 1 then
            let dT_isentrop = Tb_s - Ta in
            bnd (lift (fdiv dT_isentrop (compressor_efficiency slv))) (\<lambda>dT_real.
            let Tb = Ta + dT_real in
            bnd (add_step t2 (Some dT_real) cat) (\<lambda>_.
            bnd (add_step t3 (Some Tb) cat) (\<lambda>_. ret Tb)))
          else
            bnd (add_step t3 (Some Tb_s) cat) (\<lambda>_. ret Tb_s)) (\<lambda>Tb.
     bnd (lift (specific_volume pb Tb (gas slv))) (\<lambda>vb.
     bnd (if use_const_cp slv then attr ''cp_const'' (cp_const slv)
          else lift (cp_mean Ta Tb (gas slv) False)) (\<lambda>cp_val.
     let dh = cp_val * (Tb - Ta); hb = ha + dh in
     bnd (if compressor_efficiency slv < 1 then
            bnd (if use_const_cp slv then
                   bnd (attr ''cp_const'' (cp_const slv)) (\<lambda>c.
                   lift (entropy_change c Tb Ta (self_R slv) pb pa))
                 else
                   bnd (lift (cp_mean Ta Tb (gas slv) False)) (\<lambda>cp_m.
                   lift (entropy_change cp_m Tb Ta (self_R slv) pb pa))) (\<lambda>ds.
            ret (sa + ds))
          else ret sa) (\<lambda>sb.
     let st = \<lparr>p_val = pb, T_val = Tb, v_val = vb, h_val = hb, s_val = sb\<rparr> in
     bnd (set_state kr st) (\<lambda>_.
     bnd (lift (specific_volume pb Tb_s (gas slv))) (\<lambda>vb_s.
     bnd (set_state ks \<lparr>p_val = pb, T_val = Tb_s, v_val = vb_s,
                        h_val = ha + cp_val * (Tb_s - Ta), s_val = sa\<rparr>) (\<lambda>_.
     ret st))))))))))))"

definition calculate_state_2_with_intercooling :: "real \<Rightarrow> unit calc" where
  "calculate_state_2_with_intercooling p2 =
     with_self (\<lambda>slv.
     (if \<not> has_state slv (IntKey 1)
      then raise (ValueError ''Zustand 1 muss zuerst berechnet werden.'')
      else
     bnd (get_state (IntKey 1)) (\<lambda>st1.
     let p1 = p_val st1; T1 = T_val st1 in
     bnd (case intercooling_pressure_ratio slv of
            None \<Rightarrow>
              bnd (lift (fsqrt (p1 * p2))) (\<lambda>p_intermediate.
              bnd (lift (fdiv p_intermediate p1)) (\<lambda>pressure_ratio.
              bnd (add_step ''Optimaler Zwischendruck'' (Some p_intermediate)
                     ''Zwischenkuehlung'') (\<lambda>_. ret p_intermediate)))
          | Some pressure_ratio \<Rightarrow>
              let p_intermediate = p1 * pressure_ratio in
              bnd (add_step ''Benutzerdefinierter Zwischendruck'' (Some p_intermediate)
                     ''Zwischenkuehlung'') (\<lambda>_. ret p_intermediate)) (\<lambda>p_intermediate.
     bnd (add_step ''Zustand 2a (nach erster Verdichtungsstufe)'' None ''Zustand 2a'') (\<lambda>_.
     bnd (compression_stage
            (''Temperatur T2as (isentrop)'', ''Reale Temperaturaenderung dT12a'', ''Temperatur T2a'')
            ''Zustand 2a'' (StrKey ''2a'') (StrKey ''2a_s'')
            p1 T1 (h_val st1) (s_val st1) p_intermediate) (\<lambda>st2a.
     let T2a = T_val st2a; h2a = h_val st2a; s2a = s_val st2a in
     bnd (add_step ''Zustand 2b (nach Zwischenkuehlung)'' None ''Zustand 2b'') (\<lambda>_.
     let T2b = (case intercooling_temperature slv of None \<Rightarrow> T1 | Some t \<Rightarrow> t) in
     bnd (add_step ''Temperatur nach Zwischenkuehlung'' (Some T2b) ''Zustand 2b'') (\<lambda>_.
     bnd (lift (specific_volume p_intermediate T2b (gas slv))) (\<lambda>v2b.
     bnd (if use_const_cp slv then attr ''cp_const'' (cp_const slv)
          else lift (cp_mean T2a T2b (gas slv) False)) (\<lambda>cp_val.
     let dh_2a_2b = cp_val * (T2b - T2a); h2b = h2a + dh_2a_2b in
     bnd (if use_const_cp slv then
            bnd (attr ''cp_const'' (cp_const slv)) (\<lambda>c.
            lift (entropy_change_isobaric c T2b T2a))
          else
            bnd (lift (cp_mean T2a T2b (gas slv) False)) (\<lambda>cp_m.
            lift (entropy_change_isobaric cp_m T2b T2a))) (\<lambda>ds_2a_2b.
     let s2b = s2a + ds_2a_2b in
     bnd (set_state (StrKey ''2b'')
            \<lparr>p_val = p_intermediate, T_val = T2b, v_val = v2b, h_val = h2b, s_val = s2b\<rparr>) (\<lambda>_.
     bnd (add_step ''Zustand 2c (nach zweiter Verdichtungsstufe)'' None ''Zustand 2c'') (\<lambda>_.
     bnd (compression_stage
            (''Temperatur T2ks (isentrop)'', ''Reale Temperaturaenderung dT2b2k'', ''Temperatur T2k'')
            ''Zustand 2c'' (StrKey ''2c'') (StrKey ''2c_s'')
            p_intermediate T2b h2b s2b p2) (\<lambda>_.
     bnd (get_state (StrKey ''2c'')) (\<lambda>st2c.
     set_state (IntKey 2) st2c)))))))))))))))"

subsection \<open>State 2: dispatch\<close>

definition calculate_state_2 :: "real \<Rightarrow> unit calc" where
  "calculate_state_2 p2 =
     with_self (\<lambda>slv.
     (if intercooling slv then calculate_state_2_with_intercooling p2
      else
        bnd (calculate_state_2_isentropic p2) (\<lambda>state_2s.
        bnd (set_state (StrKey ''2s'') state_2s) (\<lambda>_.
        calculate_state_2_real p2 state_2s))))"

subsection \<open>State 3\<close>

definition calculate_state_3 :: "real \<Rightarrow> real \<Rightarrow> unit calc" where
  "calculate_state_3 p3 T3 =
     with_self (\<lambda>slv.
     bnd (add_step ''Zustand 3 (Turbineneintritt)'' None ''Zustand 3'') (\<lambda>_.
     bnd (lift (specific_volume p3 T3 (gas slv))) (\<lambda>v3.
     bnd (add_step ''Spezifisches Volumen v3'' (Some v3) ''Zustand 3'') (\<lambda>_.
     bnd (if use_const_cp slv then attr ''cp_const'' (cp_const slv)
          else bnd (get_state (IntKey 2)) (\<lambda>st2.
               lift (cp_mean (T_val st2) T3 (gas slv) False))) (\<lambda>cp_val.
     bnd (get_state (IntKey 2)) (\<lambda>st2.
     let dh = cp_val * (T3 - T_val st2) in
     bnd (add_step ''Spezifische Waermekapazitaet cp'' (Some cp_val) ''Zustand 3'') (\<lambda>_.
     bnd (add_step ''Enthalpiedifferenz dh23'' (Some dh) ''Zustand 3'') (\<lambda>_.
     let h3 = h_val st2 + dh in
     bnd (add_step ''Spezifische Enthalpie h3'' (Some h3) ''Zustand 3'') (\<lambda>_.
     bnd (if use_const_cp slv then
            bnd (attr ''cp_const'' (cp_const slv)) (\<lambda>c.
            lift (entropy_change c T3 (T_val st2) (self_R slv) p3 (p_val st2)))
          else
            bnd (lift (cp_mean (T_val st2) T3 (gas slv) False)) (\<lambda>cp_m.
            lift (entropy_change cp_m T3 (T_val st2) (self_R slv) p3 (p_val st2)))) (\<lambda>ds.
     bnd (add_step ''Entropieaenderung ds23'' (Some ds) ''Zustand 3'') (\<lambda>_.
     let s3 = s_val st2 + ds in
     bnd (add_step ''Spezifische Entropie s3'' (Some s3) ''Zustand 3'') (\<lambda>_.
     set_state (IntKey 3)
       \<lparr>p_val = p3, T_val = T3, v_val = v3, h_val = h3, s_val = s3\<rparr>))))))))))))"

subsection \<open>State 4\<close>

definition calculate_state_4_isentropic :: "real \<Rightarrow> tstate calc" where
  "calculate_state_4_isentropic p4 =
     with_self (\<lambda>slv.
     (if \<not> has_state slv (IntKey 3)
      then raise (ValueError ''Zustand 3 muss zuerst berechnet werden.'')
      else
     bnd (get_state (IntKey 3)) (\<lambda>st3.
     let p3 = p_val st3; T3 = T_val st3 in
     bnd (add_step ''Zustand 4s (isentroper Turbinenaustritt)'' None ''Allgemein'') (\<lambda>_.
     bnd (if use_const_cp slv then attr ''kappa'' (self_kappa slv)
          else lift (kappa_estimate (gas slv) T3 p3 p4)) (\<lambda>k.
     bnd (add_step ''Isentropenexponent kappa fuer die Expansion'' (Some k) ''Allgemein'') (\<lambda>_.
     bnd (lift (isentropic_temperature T3 p3 p4 k)) (\<lambda>T4s.
     bnd (add_step ''Temperatur T4s (isentrop)'' (Some T4s) ''Allgemein'') (\<lambda>_.
     bnd (add_step ''Temperatur T4s in Grad C'' (Some (kelvin_to_celsius T4s)) ''Allgemein'') (\<lambda>_.
     bnd (lift (specific_volume p4 T4s (gas slv))) (\<lambda>v4s.
     bnd (add_step ''Spezifisches Volumen v4s'' (Some v4s) ''Allgemein'') (\<lambda>_.
     bnd (if use_const_cp slv then attr ''cp_const'' (cp_const slv)
          else lift (cp_mean T3 T4s (gas slv) False)) (\<lambda>cp_val.
     let dh = cp_val * (T4s - T3) in
     bnd (add_step ''Spezifische Waermekapazitaet cp'' (Some cp_val) ''Allgemein'') (\<lambda>_.
     bnd (add_step ''Enthalpiedifferenz dh34s'' (Some dh) ''Allgemein'') (\<lambda>_.
     let h4s = h_val st3 + dh in
     bnd (add_step ''Spezifische Enthalpie h4s'' (Some h4s) ''Allgemein'') (\<lambda>_.
     let s4s = s_val st3 in
     bnd (add_step ''Spezifische Entropie s4s'' (Some s4s) ''Allgemein'') (\<lambda>_.
     ret \<lparr>p_val = p4, T_val = T4s, v_val = v4s, h_val = h4s, s_val = s4s\<rparr>))))))))))))))))"

definition calculate_state_4_real :: "real \<Rightarrow> tstate \<Rightarrow> unit calc" where
  "calculate_state_4_real p4 state_4s =
     with_self (\<lambda>slv.
     bnd (get_state (IntKey 3)) (\<lambda>st3.
     let h3 = h_val st3; h4s = h_val state_4s; T3 = T_val st3; T4s = T_val state_4s in
     bnd (add_step ''Zustand 4 (realer Turbinenaustritt)'' None ''Allgemein'') (\<lambda>_.
     bnd (if turbine_efficiency slv < 1 then
            bnd (if use_const_cp slv then attr ''cp_const'' (cp_const slv)
                 else bnd (lift (fdiv (h4s - h3) (T4s - T3))) (\<lambda>cp_val.
                      bnd (add_step ''Effektiver cp-Wert fuer isentrope Expansion''
                             (Some cp_val) ''Allgemein'') (\<lambda>_. ret cp_val))) (\<lambda>cp_val.
            let dT_isentrop = T3 - T4s;
                dT_real = dT_isentrop * turbine_efficiency slv in
            bnd (add_step ''Reale Temperaturaenderung dT34'' (Some dT_real) ''Allgemein'') (\<lambda>_.
            let T4 = T3 - dT_real in
            bnd (add_step ''Temperatur T4'' (Some T4) ''Allgemein'') (\<lambda>_.
            let dh_real = cp_val * (T4 - T3) in
            bnd (add_step ''Reale Enthalpieaenderung dh34'' (Some dh_real) ''Allgemein'') (\<lambda>_.
            let h4 = h3 + dh_real in
            bnd (add_step ''Spezifische Enthalpie h4'' (Some h4) ''Allgemein'') (\<lambda>_.
            ret (T4, h4))))))
          else
            bnd (add_step ''Temperatur und Enthalpie T4, h4'' (Some T4s) ''Allgemein'') (\<lambda>_.
            ret (T4s, h4s))) (\<lambda>(T4, h4).
     bnd (add_step ''Temperatur T4 in Grad C'' (Some (kelvin_to_celsius T4)) ''Allgemein'') (\<lambda>_.
     bnd (lift (specific_volume p4 T4 (gas slv))) (\<lambda>v4.
     bnd (add_step ''Spezifisches Volumen v4'' (Some v4) ''Allgemein'') (\<lambda>_.
     bnd (if use_const_cp slv then
            bnd (attr ''cp_const'' (cp_const slv)) (\<lambda>c.
            lift (entropy_change c T4 T3 (self_R slv) p4 (p_val st3)))
          else
            bnd (lift (cp_mean T3 T4 (gas slv) False)) (\<lambda>cp_m.
            lift (entropy_change cp_m T4 T3 (self_R slv) p4 (p_val st3)))) (\<lambda>ds.
     bnd (add_step ''Entropieaenderung ds34'' (Some ds) ''Allgemein'') (\<lambda>_.
     let s4 = s_val st3 + ds in
     bnd (add_step ''Spezifische Entropie s4'' (Some s4) ''Allgemein'') (\<lambda>_.
     set_state (IntKey 4)
       \<lparr>p_val = p4, T_val = T4, v_val = v4, h_val = h4, s_val = s4\<rparr>))))))))))"

definition calculate_state_4 :: "real \<Rightarrow> unit calc" where
  "calculate_state_4 p4 =
     bnd (calculate_state_4_isentropic p4) (\<lambda>state_4s.
     bnd (set_state (StrKey ''4s'') state_4s) (\<lambda>_.
     calculate_state_4_real p4 state_4s))"

subsection \<open>Optimal pressure ratio\<close>

text \<open>
  \<open>power_expr x k\<close> is \<open>x ** (k / (2 * (k - 1)))\<close>, the closed form of the optimal
  pressure ratio; both cp models of the source use it.
\<close>

definition power_expr :: "real \<Rightarrow> real \<Rightarrow> error + real" where
  "power_expr x k = bindE (fdiv k (2 * (k - 1))) (\<lambda>ex. fpow x ex)"

definition calculate_optimal_pressure_ratio :: "(real option \<times> real option) calc" where
  "calculate_optimal_pressure_ratio =
     with_self (\<lambda>slv.
     bnd (get_state (IntKey 1)) (\<lambda>st1.
     let T1 = T_val st1 in
     if \<not> has_state slv (IntKey 3) then
       bnd (add_step ''Optimales Druckverhaeltnis konnte nicht berechnet werden'' None
              ''Allgemein'') (\<lambda>_.
       ret (None, None))
     else
     bnd (get_state (IntKey 3)) (\<lambda>st3.
     let T3 = T_val st3 in
     bnd (if use_const_cp slv then
            bnd (attr ''kappa'' (self_kappa slv)) (\<lambda>k.
            bnd (lift (bindE (fdiv T3 T1) (\<lambda>q. power_expr q k))) (\<lambda>pi_opt.
            bnd (add_step ''Optimales Druckverhaeltnis pi_opt'' (Some pi_opt) ''Allgemein'') (\<lambda>_.
            ret pi_opt)))
          else
            bnd (lift (kappa_mean T1 T3 (gas slv) False)) (\<lambda>k.
            bnd (lift (bindE (fdiv T3 T1) (\<lambda>q. power_expr q k))) (\<lambda>pi_opt.
            bnd (add_step ''Optimales Druckverhaeltnis pi_opt'' (Some pi_opt) ''Allgemein'') (\<lambda>_.
            ret pi_opt)))) (\<lambda>pi_opt.
     bnd (if use_const_cp slv then
            bnd (attr ''kappa'' (self_kappa slv)) (\<lambda>k.
            lift (bindE (fdiv (k - 1) k) (\<lambda>ex. bindE (fpow pi_opt ex) (\<lambda>pw. Inr (T1 * pw)))))
          else
            bnd (lift (bindE (fpow pi_opt 0.3) (\<lambda>pw.
                   kappa_mean T1 (T1 * pw) (gas slv) False))) (\<lambda>kappa_12.
            lift (bindE (fdiv (kappa_12 - 1) kappa_12) (\<lambda>ex.
                  bindE (fpow pi_opt ex) (\<lambda>pw. Inr (T1 * pw)))))) (\<lambda>T2_opt.
     bnd (add_step ''Optimale Temperatur T2'' (Some T2_opt) ''Allgemein'') (\<lambda>_.
     ret (Some pi_opt, Some T2_opt)))))))"

subsection \<open>Regeneration\<close>

text \<open>
  The isobaric update of the source from a stored state \<open>st\<close> to the temperature \<open>Tn\<close>: the
  specific volume at the unchanged pressure, the enthalpy and entropy changes (each with
  a step), and the store under the key \<open>k\<close>. The source writes it once for 2* and once
  for 4*.
\<close>

definition regenerated_state :: "string \<times> string \<Rightarrow> key \<Rightarrow> tstate \<Rightarrow> real \<Rightarrow> unit calc" where
  "regenerated_state ttls k st Tn =
     with_self (\<lambda>slv.
     (case ttls of (t1, t2) \<Rightarrow>
     let p_star = p_val st in
     bnd (lift (specific_volume p_star Tn (gas slv))) (\<lambda>v_star.
     bnd (if use_const_cp slv then attr ''cp_const'' (cp_const slv)
          else lift (cp_mean (T_val st) Tn (gas slv) False)) (\<lambda>cp_val.
     let dh = cp_val * (Tn - T_val st) in
     bnd (add_step t1 (Some dh) ''Regeneration'') (\<lambda>_.
     let h_star = h_val st + dh in
     bnd (if use_const_cp slv then
            bnd (attr ''cp_const'' (cp_const slv)) (\<lambda>c.
            lift (entropy_change_isobaric c Tn (T_val st)))
          else
            bnd (lift (cp_mean (T_val st) Tn (gas slv) False)) (\<lambda>cp_m.
            lift (entropy_change_isobaric cp_m Tn (T_val st)))) (\<lambda>ds.
     bnd (add_step t2 (Some ds) ''Regeneration'') (\<lambda>_.
     let s_star = s_val st + ds in
     set_state k
       \<lparr>p_val = p_star, T_val = Tn, v_val = v_star, h_val = h_star, s_val = s_star\<rparr>)))))))"

definition calculate_regeneration :: "real \<Rightarrow> unit calc" where
  "calculate_regeneration pinch_point =
     with_self (\<lambda>slv.
     (if \<not> regeneration slv \<or> reg_eff slv \<le> 0 then ret ()
      else if \<not> (has_state slv (IntKey 2) \<and> has_state slv (IntKey 4))
      then raise (ValueError ''Zustaende 2 und 4 muessen zuerst berechnet werden.'')
      else
     bnd (add_step ''Regeneration (Waermerueckgewinnung)'' None ''Regeneration'') (\<lambda>_.
     bnd (get_state (IntKey 2)) (\<lambda>st2.
     bnd (get_state (IntKey 4)) (\<lambda>st4.
     let T2 = T_val st2; T4 = T_val st4 in
     bnd (add_step ''Temperaturen fuer Regeneration'' None ''Regeneration'') (\<lambda>_.
     if T4 \<le> T2 + pinch_point then
       add_step ''Keine Regeneration moeglich'' None ''Regeneration''
     else
     bnd (if 0 < pinch_point then
            let T2_star_max = T4 - pinch_point;
                T2_star_reg = T2 + reg_eff slv * (T4 - T2);
                T2_star = min T2_star_max T2_star_reg in
            bnd (add_step ''Maximale Temperatur T2* (Pinch-Point-Beschraenkung)''
                   (Some T2_star_max) ''Regeneration'') (\<lambda>_. ret T2_star)
          else
            let T2_star = T2 + reg_eff slv * (T4 - T2) in
            ret (min T2_star T4)) (\<lambda>T2_star.
     bnd (add_step ''Temperatur T2* nach Regeneration (Hochdruckseite)''
            (Some T2_star) ''Regeneration'') (\<lambda>_.
     let T4_star = T4 - (T2_star - T2) in
     bnd (add_step ''Temperatur T4* nach Regeneration (Niederdruckseite)''
            (Some T4_star) ''Regeneration'') (\<lambda>_.
     bnd (regenerated_state (''Enthalpieaenderung dh22*'', ''Entropieaenderung ds22* (isobar)'')
            (StrKey ''2*'') st2 T2_star) (\<lambda>_.
     regenerated_state (''Enthalpieaenderung dh44*'', ''Entropieaenderung ds44* (isobar)'')
            (StrKey ''4*'') st4 T4_star))))))))))"

subsection \<open>Process properties\<close>

text \<open>
  The mean temperature \<open>(Ta - Tb) / np.log(Ta / Tb)\<close> of a heat transfer between \<open>Tb\<close>
  and \<open>Ta\<close>.
\<close>

definition mean_temperature :: "real \<Rightarrow> real \<Rightarrow> error + real" where
  "mean_temperature Ta Tb =
     bindE (fdiv Ta Tb) (\<lambda>q.
     bindE (flog q) (\<lambda>l. fdiv (Ta - Tb) l))"

text \<open>
  The result dictionary maps property names to numbers; a key that the source does not
  set is absent from the map. \<open>build_properties\<close> is the dictionary literal of the source
  with the updates for intercooling (\<open>ic\<close> holds \<open>w_comp1\<close>, \<open>w_comp2\<close> and \<open>q_intercool\<close>
  when intercooling was found), for regeneration and for the mass flow.
\<close>

definition build_properties ::
    "real \<Rightarrow> real \<Rightarrow> real \<Rightarrow> real \<Rightarrow> real \<Rightarrow> real \<Rightarrow> real \<Rightarrow> real
      \<Rightarrow> (real \<times> real \<times> real) option \<Rightarrow> bool \<Rightarrow> real \<Rightarrow> real option
      \<Rightarrow> (string \<rightharpoonup> real)" where
  "build_properties w_comp w_turb w_kp q_in q_out eta_th T_m_zu T_m_ab ic reg24 q_reg mflow =
     (let props0 = [''w_comp'' \<mapsto> w_comp, ''w_turb'' \<mapsto> w_turb, ''w_kp'' \<mapsto> w_kp,
                    ''q_in'' \<mapsto> q_in, ''q_out'' \<mapsto> q_out, ''eta_th'' \<mapsto> eta_th,
                    ''T_m_zu'' \<mapsto> T_m_zu, ''T_m_ab'' \<mapsto> T_m_ab];
          props1 = (case ic of
                      None \<Rightarrow> props0
                    | Some (w_comp1, w_comp2, q_intercool) \<Rightarrow>
                        props0(''w_comp1'' \<mapsto> w_comp1, ''w_comp2'' \<mapsto> w_comp2,
                               ''q_intercool'' \<mapsto> q_intercool));
          props2 = (if reg24 then props1(''q_reg'' \<mapsto> q_reg) else props1)
      in case mflow of
           None \<Rightarrow> props2
         | Some m \<Rightarrow>
             (let a = props2(''P_comp'' \<mapsto> m * w_comp, ''P_turb'' \<mapsto> m * w_turb,
                             ''P_kp'' \<mapsto> m * w_kp, ''Q_in'' \<mapsto> m * q_in,
                             ''Q_out'' \<mapsto> m * q_out);
                  b = (case ic of
                         None \<Rightarrow> a
                       | Some (w_comp1, w_comp2, q_intercool) \<Rightarrow>
                           a(''P_comp1'' \<mapsto> m * w_comp1, ''P_comp2'' \<mapsto> m * w_comp2,
                             ''Q_intercool'' \<mapsto> m * q_intercool))
              in if reg24 then b(''Q_reg'' \<mapsto> m * q_reg) else b))"

text \<open>
  The method stores no state and sets no parameter, so the tests of the source on
  \<open>self.regeneration\<close>, \<open>self.mass_flow\<close> and on the keys of \<open>self.states\<close> have the same
  value wherever they occur in it. \<open>process_properties_with\<close> is the body of the method
  with these values as parameters: \<open>hic\<close> for \<open>has_intercooling\<close>, \<open>reg2\<close> for
  \<open>self.regeneration and "2*" in self.states\<close>, \<open>reg4\<close> likewise for "4*", \<open>reg24\<close> for
  both, \<open>h12\<close> for \<open>1 in self.states and 2 in self.states\<close> and \<open>h13\<close> likewise for 3.
\<close>

definition process_properties_with ::
    "bool \<Rightarrow> bool \<Rightarrow> bool \<Rightarrow> bool \<Rightarrow> bool \<Rightarrow> bool \<Rightarrow> real option
      \<Rightarrow> (string \<rightharpoonup> real) calc" where
  "process_properties_with hic reg2 reg4 reg24 h12 h13 mflow =
     bnd (if hic then
            bnd (get_state (IntKey 1)) (\<lambda>st1.
            bnd (get_state (StrKey ''2a'')) (\<lambda>st2a.
            let w_comp1 = h_val st1 - h_val st2a in
            bnd (add_step ''Spezifische Verdichterarbeit erste Stufe w_c1'' (Some w_comp1)
                   ''Allgemein'') (\<lambda>_.
            bnd (get_state (StrKey ''2b'')) (\<lambda>st2b.
            bnd (get_state (StrKey ''2c'')) (\<lambda>st2c.
            let w_comp2 = h_val st2b - h_val st2c in
            bnd (add_step ''Spezifische Verdichterarbeit zweite Stufe w_c2'' (Some w_comp2)
                   ''Allgemein'') (\<lambda>_.
            let w_comp = w_comp1 + w_comp2 in
            bnd (add_step ''Gesamte spezifische Verdichterarbeit w_c'' (Some w_comp)
                   ''Allgemein'') (\<lambda>_.
            let q_intercool = h_val st2a - h_val st2b in
            bnd (add_step ''Spezifische Waermeabfuhr bei Zwischenkuehlung q_intercool''
                   (Some q_intercool) ''Allgemein'') (\<lambda>_.
            ret (w_comp, Some (w_comp1, w_comp2, q_intercool))))))))))
          else
            bnd (get_state (IntKey 1)) (\<lambda>st1.
            bnd (get_state (IntKey 2)) (\<lambda>st2.
            let w_comp = h_val st1 - h_val st2 in
            bnd (add_step ''Spezifische Verdichterarbeit w_c'' (Some w_comp) ''Allgemein'') (\<lambda>_.
            ret (w_comp, None))))) (\<lambda>(w_comp, ic).
     bnd (get_state (IntKey 3)) (\<lambda>st3.
     bnd (get_state (IntKey 4)) (\<lambda>st4.
     let w_turb = h_val st3 - h_val st4 in
     bnd (add_step ''Spezifische Turbinenarbeit w_t'' (Some w_turb) ''Allgemein'') (\<lambda>_.
     let w_kp = w_comp + w_turb in
     bnd (add_step ''Spezifische Kreisprozessarbeit w_KP'' (Some w_kp) ''Allgemein'') (\<lambda>_.
     bnd (get_state (if reg2 then StrKey ''2*'' else IntKey 2)) (\<lambda>st2x.
     let q_in = h_val st3 - h_val st2x in
     bnd (add_step ''Spezifische Waermezufuhr q_zu'' (Some q_in) ''Allgemein'') (\<lambda>_.
     bnd (get_state (if reg4 then StrKey ''4*'' else IntKey 4)) (\<lambda>st4x.
     bnd (get_state (IntKey 1)) (\<lambda>st1.
     let q_out = h_val st4x - h_val st1 in
     bnd (add_step ''Spezifische Waermeabfuhr q_ab'' (Some q_out) ''Allgemein'') (\<lambda>_.
     bnd (lift (fdiv w_kp q_in)) (\<lambda>eta_th.
     bnd (add_step ''Thermischer Wirkungsgrad eta_th'' (Some eta_th) ''Allgemein'') (\<lambda>_.
     bnd (lift (mean_temperature (T_val st3) (T_val st2x))) (\<lambda>T_m_zu.
     bnd (add_step ''Mittlere Temperatur der Waermezufuhr'' (Some T_m_zu) ''Allgemein'') (\<lambda>_.
     bnd (lift (mean_temperature (T_val st4x) (T_val st1))) (\<lambda>T_m_ab.
     bnd (add_step ''Mittlere Temperatur der Waermeabfuhr'' (Some T_m_ab) ''Allgemein'') (\<lambda>_.
     bnd (if reg24 then
            bnd (get_state (StrKey ''2*'')) (\<lambda>st2s.
            bnd (get_state (IntKey 2)) (\<lambda>st2.
            let q_reg = h_val st2s - h_val st2 in
            bnd (add_step ''Spezifische Waerme im Regenerator q_reg'' (Some q_reg)
                   ''Allgemein'') (\<lambda>_. ret q_reg)))
          else ret 0) (\<lambda>q_reg.
     let props3 = build_properties w_comp w_turb w_kp q_in q_out eta_th T_m_zu T_m_ab
                    ic reg24 q_reg mflow in
     bnd (if h12 then
            bnd (get_state (IntKey 2)) (\<lambda>st2.
            bnd (lift (fdiv (p_val st2) (p_val st1))) (\<lambda>pi_ratio.
            ret (props3(''pi'' \<mapsto> pi_ratio))))
          else ret props3) (\<lambda>props4.
     if h13 then
       bnd (lift (fdiv (T_val st3) (T_val st1))) (\<lambda>tau.
       ret (props4(''tau'' \<mapsto> tau)))
     else ret props4))))))))))))))))))"

definition calculate_process_properties :: "(string \<rightharpoonup> real) calc" where
  "calculate_process_properties =
     with_self (\<lambda>slv.
     process_properties_with
       (has_state slv (StrKey ''2a'') \<and> has_state slv (StrKey ''2b'')
          \<and> has_state slv (StrKey ''2c''))
       (regeneration slv \<and> has_state slv (StrKey ''2*''))
       (regeneration slv \<and> has_state slv (StrKey ''4*''))
       (regeneration slv \<and> has_state slv (StrKey ''2*'') \<and> has_state slv (StrKey ''4*''))
       (has_state slv (IntKey 1) \<and> has_state slv (IntKey 2))
       (has_state slv (IntKey 1) \<and> has_state slv (IntKey 3))
       (mass_flow slv))"

section \<open>The consistency invariant and example solvers\<close>

text \<open>
  A state is consistent for the gas constant \<open>R\<close> when its specific volume is the ideal
  gas value \<open>R T / p\<close> and the temperature is recovered from it, \<open>v p / R = T\<close>.
\<close>

definition consistent :: "real \<Rightarrow> tstate \<Rightarrow> bool" where
  "consistent R st \<longleftrightarrow>
     v_val st = R * T_val st / p_val st \<and> v_val st * p_val st / R = T_val st"

definition consistent_for :: "string \<Rightarrow> tstate \<Rightarrow> bool" where
  "consistent_for gas_key st \<longleftrightarrow>
     (case GAS_PROPERTIES gas_key of
        None \<Rightarrow> False
      | Some g \<Rightarrow> consistent (g_R g) st)"

definition states_consistent :: "solver \<Rightarrow> bool" where
  "states_consistent slv \<longleftrightarrow>
     (\<forall>k st. states slv k = Some st \<longrightarrow> consistent_for (gas slv) st)"

text \<open>
  \<open>keeps gk m Q\<close>: started on a solver for the gas \<open>gk\<close> whose stored states are all
  consistent, the computation \<open>m\<close> ends (with a result or an error) in such a solver, and a
  result satisfies \<open>Q\<close>.
\<close>

definition keeps :: "string \<Rightarrow> 'a calc \<Rightarrow> ('a \<Rightarrow> bool) \<Rightarrow> bool" where
  "keeps gk m Q \<longleftrightarrow>
     (\<forall>s r s'. gas s = gk \<and> states_consistent s \<and> m s = (r, s') \<longrightarrow>
        gas s' = gk \<and> states_consistent s' \<and> (\<forall>x. r = Inr x \<longrightarrow> Q x))"

text \<open>
  A computation is independent of the regeneration flag when running it on a solver with
  the flag changed gives the same result and the same solver up to the flag.
\<close>

definition reg_indep :: "'a calc \<Rightarrow> bool" where
  "reg_indep m \<longleftrightarrow>
     (\<forall>s b. m (s\<lparr>regeneration := b\<rparr>)
        = (case m s of (r, s') \<Rightarrow> (r, s'\<lparr>regeneration := b\<rparr>)))"

text \<open>
  \<open>air_solver\<close> is the object that \<open>JouleProcessCalculator("air", True)\<close> constructs,
  \<open>inlet_solver\<close> the same object after \<open>calculate_state_1(1e5, 293.15)\<close>, and
  \<open>cycle_solver\<close> a solver for air with regeneration switched on that holds the four
  principal states of a cycle whose turbine outlet is exactly as hot as its compressor
  outlet.
\<close>

definition air_solver :: solver where
  "air_solver =
     \<lparr>gas = ''air'', use_const_cp = True, steps = [], states = Map.empty,
      self_R = 287.058, cp_const = Some 1005, self_kappa = Some 1.4,
      cv_const = Some (1005 - 287.058),
      regeneration = False, reg_eff = 0, compressor_efficiency = 1, turbine_efficiency = 1,
      mass_flow = None, intercooling = False, intercooling_temperature = None,
      intercooling_pressure_ratio = None\<rparr>"

definition inlet_solver :: solver where
  "inlet_solver = snd (calculate_state_1 100000 293.15 air_solver)"

definition cycle_state_1 :: tstate where
  "cycle_state_1 =
     \<lparr>p_val = 100000, T_val = 300, v_val = 287.058 * 300 / 100000, h_val = 0, s_val = 0\<rparr>"

definition cycle_state_2 :: tstate where
  "cycle_state_2 =
     \<lparr>p_val = 800000, T_val = 600, v_val = 287.058 * 600 / 800000, h_val = 301500,
      s_val = 100\<rparr>"

definition cycle_state_3 :: tstate where
  "cycle_state_3 =
     \<lparr>p_val = 800000, T_val = 1200, v_val = 287.058 * 1200 / 800000, h_val = 904500,
      s_val = 800\<rparr>"

definition cycle_state_4 :: tstate where
  "cycle_state_4 =
     \<lparr>p_val = 100000, T_val = 600, v_val = 287.058 * 600 / 100000, h_val = 301500,
      s_val = 900\<rparr>"

definition cycle_solver :: solver where
  "cycle_solver =
     air_solver\<lparr>regeneration := True, reg_eff := 0.8,
       states := [IntKey 1 \<mapsto> cycle_state_1, IntKey 2 \<mapsto> cycle_state_2,
                  IntKey 3 \<mapsto> cycle_state_3, IntKey 4 \<mapsto> cycle_state_4]\<rparr>"

text \<open>
  A caller uses the solver through its methods. \<open>perform\<close> gives the solver after one
  call, whether the call returned or raised (a caller may catch the exception and go on,
  as the front end does for the regeneration), and \<open>run\<close> the solver after a sequence of
  calls.
\<close>

datatype call =
    Set_parameters bool real real real "real option" bool "real option" "real option"
  | Calculate_state_1 real real
  | Calculate_state_2 real
  | Calculate_state_3 real real
  | Calculate_state_4 real
  | Calculate_regeneration real
  | Calculate_process_properties
  | Calculate_optimal_pressure_ratio

fun perform :: "call \<Rightarrow> solver \<Rightarrow> solver" where
  "perform (Set_parameters regen reff ceff teff mflow icool ictemp icratio) slv =
     snd (set_parameters regen reff ceff teff mflow icool ictemp icratio slv)"
| "perform (Calculate_state_1 p1 T1) slv = snd (calculate_state_1 p1 T1 slv)"
| "perform (Calculate_state_2 p2) slv = snd (calculate_state_2 p2 slv)"
| "perform (Calculate_state_3 p3 T3) slv = snd (calculate_state_3 p3 T3 slv)"
| "perform (Calculate_state_4 p4) slv = snd (calculate_state_4 p4 slv)"
| "perform (Calculate_regeneration pinch_point) slv = snd (calculate_regeneration pinch_point slv)"
| "perform Calculate_process_properties slv = snd (calculate_process_properties slv)"
| "perform Calculate_optimal_pressure_ratio slv = snd (calculate_optimal_pressure_ratio slv)"

fun run :: "call list \<Rightarrow> solver \<Rightarrow> solver" where
  "run [] slv = slv"
| "run (c # cs) slv = run cs (perform c slv)"


definition isentropic_outlet :: tstate where
  "isentropic_outlet =
     \<lparr>p_val = 800000, T_val = 293.15 * 8 powr (2 / 7),
      v_val = 287.058 * (293.15 * 8 powr (2 / 7)) / 800000,
      h_val = 1005 * (293.15 * 8 powr (2 / 7) - 293.15), s_val = 0\<rparr>"

section \<open>Basic facts\<close>

lemmas calc_defs = bnd_def ret_def raise_def lift_def attr_def add_step_def get_state_def
  set_state_def has_state_def bindE_def with_self_def modify_def

lemma init_air: "init ''air'' True = Inr air_solver"
  by (simp add: init_def gas_entry_def GAS_PROPERTIES_def bindE_def air_solver_def)

lemma gas_entry_air:
  "gas_entry ''air'' =
     Inr \<lparr>g_name = ''Luft'', g_M = 28.9647, g_R = 287.058, g_kappa_approx = 1.4,
          g_cp_coeffs = (1047.63, - 0.372589, 0.000945304, - 0.000000602409),
          g_cp_const = 1005, g_T_range = (200, 1600)\<rparr>"
  by (simp add: gas_entry_def GAS_PROPERTIES_def)

lemma inlet_solver_states:
  "states inlet_solver =
     [IntKey 1 \<mapsto> \<lparr>p_val = 100000, T_val = 293.15, v_val = 287.058 * 293.15 / 100000,
                    h_val = 0, s_val = 0\<rparr>]"
  by (simp add: inlet_solver_def calculate_state_1_def calc_defs specific_volume_def
      fdiv_def air_solver_def gas_entry_air)

section \<open>Regeneration that is not feasible\<close>

text \<open>
  Claim C4. When states 2 and 4 are present and \<open>T4 \<le> T2 + pinch_point\<close> (the equality
  \<open>T4 = T2 + pinch_point\<close> included), \<open>calculate_regeneration\<close> raises no error and
  returns a solver whose state map is the one before the call; so neither "2*" nor "4*"
  is added. This holds for every pinch point, in particular for every non-negative one.
\<close>

theorem regeneration_infeasible_frame:
  assumes "states slv (IntKey 2) = Some st2" and "states slv (IntKey 4) = Some st4"
    and "T_val st4 \<le> T_val st2 + pinch_point"
  shows "\<exists>slv'. calculate_regeneration pinch_point slv = (Inr (), slv')
            \<and> states slv' = states slv"
  using assms unfolding calculate_regeneration_def
  by (auto simp: calc_defs Let_def split: if_splits sum.splits option.splits prod.splits)

theorem regeneration_infeasible_frame_witness:
  "T_val cycle_state_4 = T_val cycle_state_2 + 0
     \<and> (\<exists>slv'. calculate_regeneration 0 cycle_solver = (Inr (), slv')
            \<and> states slv' = states cycle_solver
            \<and> states slv' (StrKey ''2*'') = None \<and> states slv' (StrKey ''4*'') = None)"
proof -
  have 2: "states cycle_solver (IntKey 2) = Some cycle_state_2"
    and 4: "states cycle_solver (IntKey 4) = Some cycle_state_4"
    by (simp_all add: cycle_solver_def)
  have le: "T_val cycle_state_4 \<le> T_val cycle_state_2 + 0"
    by (simp add: cycle_state_4_def cycle_state_2_def)
  have none: "states cycle_solver (StrKey ''2*'') = None"
    "states cycle_solver (StrKey ''4*'') = None"
    by (simp_all add: cycle_solver_def)
  from regeneration_infeasible_frame [OF 2 4 le] none show ?thesis
    by (auto simp: cycle_state_4_def cycle_state_2_def)
qed

section \<open>Compressor efficiencies of one and above\<close>






section \<open>Entropy of the intercooled stages at efficiency one and above\<close>

text \<open>
  Claim C10. With intercooling and a compressor efficiency of 1 or more, whenever
  \<open>calculate_state_2\<close> returns, the stored entropy of 2a is the entropy of state 1 and the
  stored entropy of 2c is the entropy of 2b: both are copied, no entropy formula is
  evaluated for the two compression stages.
\<close>

theorem intercooled_entropies_copied:
  assumes "intercooling slv" and "1 \<le> compressor_efficiency slv"
    and "states slv (IntKey 1) = Some st1"
    and "calculate_state_2 p2 slv = (Inr u, slv')"
  shows "\<exists>st2a st2b st2c. states slv' (StrKey ''2a'') = Some st2a
           \<and> states slv' (StrKey ''2b'') = Some st2b
           \<and> states slv' (StrKey ''2c'') = Some st2c
           \<and> states slv' (IntKey 1) = Some st1
           \<and> s_val st2a = s_val st1 \<and> s_val st2c = s_val st2b"
  using assms
  unfolding calculate_state_2_def calculate_state_2_with_intercooling_def
    compression_stage_def
  by (auto simp: calc_defs Let_def split: if_splits sum.splits option.splits prod.splits)

lemma calculate_state_2_intercooled_returns:
  "fst (calculate_state_2 800000 (inlet_solver\<lparr>intercooling := True\<rparr>)) = Inr ()"
  by (simp add: calculate_state_2_def calculate_state_2_with_intercooling_def
      compression_stage_def inlet_solver_def calculate_state_1_def calc_defs
      specific_volume_def fdiv_def air_solver_def gas_entry_air isentropic_temperature_def
      entropy_change_def entropy_change_isobaric_def fpow_def flog_def fsqrt_def Let_def)

theorem intercooled_entropies_copied_witness:
  "intercooling (inlet_solver\<lparr>intercooling := True\<rparr>)
     \<and> 1 \<le> compressor_efficiency (inlet_solver\<lparr>intercooling := True\<rparr>)
     \<and> fst (calculate_state_2 800000 (inlet_solver\<lparr>intercooling := True\<rparr>)) = Inr ()
     \<and> (\<exists>st1 st2a st2b st2c.
          states (inlet_solver\<lparr>intercooling := True\<rparr>) (IntKey 1) = Some st1
          \<and> states (snd (calculate_state_2 800000 (inlet_solver\<lparr>intercooling := True\<rparr>)))
              (StrKey ''2a'') = Some st2a
          \<and> states (snd (calculate_state_2 800000 (inlet_solver\<lparr>intercooling := True\<rparr>)))
              (StrKey ''2b'') = Some st2b
          \<and> states (snd (calculate_state_2 800000 (inlet_solver\<lparr>intercooling := True\<rparr>)))
              (StrKey ''2c'') = Some st2c
          \<and> s_val st2a = s_val st1 \<and> s_val st2c = s_val st2b)"
proof -
  let ?slv = "inlet_solver\<lparr>intercooling := True\<rparr>"
  let ?st1 = "\<lparr>p_val = 100000, T_val = 293.15, v_val = 287.058 * 293.15 / 100000,
                h_val = 0, s_val = 0\<rparr>"
  have a: "intercooling ?slv" by simp
  have b: "1 \<le> compressor_efficiency ?slv"
    by (simp add: inlet_solver_def calculate_state_1_def calc_defs specific_volume_def
        fdiv_def air_solver_def gas_entry_air)
  have c: "states ?slv (IntKey 1) = Some ?st1"
    by (simp add: inlet_solver_states)
  have d: "calculate_state_2 800000 ?slv = (Inr (), snd (calculate_state_2 800000 ?slv))"
    using calculate_state_2_intercooled_returns by (simp add: prod_eq_iff)
  from intercooled_entropies_copied [OF a b c d] a b c calculate_state_2_intercooled_returns
  show ?thesis by blast
qed

section \<open>Missing prerequisite states\<close>

text \<open>
  The compression and expansion methods and the regeneration test their prerequisite and
  raise a ValueError that names the missing state.
\<close>

lemma calculate_state_2_without_state_1:
  "states slv (IntKey 1) = None \<Longrightarrow>
     calculate_state_2 p2 slv
       = (Inl (ValueError ''Zustand 1 muss zuerst berechnet werden.''), slv)"
  by (simp add: calculate_state_2_def calculate_state_2_with_intercooling_def
      calculate_state_2_isentropic_def calc_defs)

lemma calculate_state_4_without_state_3:
  "states slv (IntKey 3) = None \<Longrightarrow>
     calculate_state_4 p4 slv
       = (Inl (ValueError ''Zustand 3 muss zuerst berechnet werden.''), slv)"
  by (simp add: calculate_state_4_def calculate_state_4_isentropic_def calc_defs)

lemma calculate_regeneration_without_states:
  "regeneration slv \<Longrightarrow> 0 < reg_eff slv
     \<Longrightarrow> states slv (IntKey 2) = None \<or> states slv (IntKey 4) = None \<Longrightarrow>
     calculate_regeneration pinch_point slv
       = (Inl (ValueError ''Zustaende 2 und 4 muessen zuerst berechnet werden.''), slv)"
  by (auto simp: calculate_regeneration_def calc_defs)

text \<open>
  \<open>calculate_state_3\<close> has no such test. Without state 2 it records two steps, computes
  the specific volume and then fails in the dictionary lookup \<open>self.states[2]\<close>: the error
  is the KeyError of the lookup. The state map is as before the call.
\<close>

lemma calculate_state_3_without_state_2:
  assumes "states slv (IntKey 2) = None" and "p3 \<noteq> 0" and "gas_entry (gas slv) = Inr g"
    and "use_const_cp slv \<longrightarrow> cp_const slv \<noteq> None"
  shows "fst (calculate_state_3 p3 T3 slv) = Inl (KeyError (IntKey 2))
           \<and> states (snd (calculate_state_3 p3 T3 slv)) = states slv"
  using assms unfolding calculate_state_3_def
  by (auto simp: calc_defs Let_def specific_volume_def fdiv_def
      split: if_splits sum.splits option.splits prod.splits)

text \<open>
  Claim C1. The claim says that \<open>calculate_state_3\<close> without state 2 fails with the
  missing-prerequisite error, as \<open>calculate_state_2\<close> does without state 1. On a solver
  that holds state 1 only, \<open>calculate_state_3(8e5, 1273.15)\<close> ends in \<open>KeyError(2)\<close>, not
  in a ValueError.
\<close>

theorem calculate_state_3_raises_KeyError:
  "fst (calculate_state_3 800000 1273.15 inlet_solver) = Inl (KeyError (IntKey 2))"
  by (simp add: calculate_state_3_def inlet_solver_def calculate_state_1_def calc_defs
      specific_volume_def fdiv_def air_solver_def gas_entry_air Let_def)

section \<open>Optimal pressure ratio\<close>

lemma optimal_pressure_ratio_without_state_1:
  "states slv (IntKey 1) = None \<Longrightarrow>
     calculate_optimal_pressure_ratio slv = (Inl (KeyError (IntKey 1)), slv)"
  by (simp add: calculate_optimal_pressure_ratio_def calc_defs)

lemma optimal_pressure_ratio_without_state_3:
  "states slv (IntKey 1) = Some st1 \<Longrightarrow> states slv (IntKey 3) = None \<Longrightarrow>
     calculate_optimal_pressure_ratio slv
       = (Inr (None, None),
          slv\<lparr>steps := steps slv @
            [\<lparr>title = ''Optimales Druckverhaeltnis konnte nicht berechnet werden'',
              result = None, category = ''Allgemein''\<rparr>]\<rparr>)"
  by (simp add: calculate_optimal_pressure_ratio_def calc_defs Let_def)

lemma optimal_pressure_ratio_closed_form:
  assumes "states slv (IntKey 1) = Some st1" and "states slv (IntKey 3) = Some st3"
    and "use_const_cp slv" and "self_kappa slv = Some k" and "1 < k"
    and "0 < T_val st1" and "0 < T_val st3"
  shows "\<exists>T2_opt slv'. calculate_optimal_pressure_ratio slv
           = (Inr (Some ((T_val st3 / T_val st1) powr (k / (2 * (k - 1)))), Some T2_opt), slv')"
  using assms
  by (simp add: calculate_optimal_pressure_ratio_def calc_defs Let_def power_expr_def
      fdiv_def fpow_def)

text \<open>
  Claim C2. The claim says that the operation reports "undetermined" when state 1 or
  state 3 is absent. That holds for state 3 (lemma above), and the closed form holds when
  both are present. The absence of state 1 is not tested: on the freshly constructed
  solver the call ends in \<open>KeyError(1)\<close>, no step is recorded and nothing is returned.
\<close>

theorem optimal_pressure_ratio_raises_KeyError:
  "calculate_optimal_pressure_ratio air_solver = (Inl (KeyError (IntKey 1)), air_solver)"
  by (simp add: calculate_optimal_pressure_ratio_def calc_defs air_solver_def)

section \<open>Entropy after an ideal single-stage compression\<close>

lemma ln_8_ge_1: "1 \<le> ln (8::real)"
proof -
  have "exp 1 \<le> (8::real)" using exp_le by linarith
  then show ?thesis by (simp add: ln_ge_iff)
qed

text \<open>
  With constant cp and an efficiency of 1 (or more) the single-stage path recomputes the
  entropy of state 2 from \<open>cp ln(T2/T1) - R ln(p2/p1)\<close>. With \<open>T2 = T2s\<close> this is
  \<open>(cp (\<kappa> - 1) / \<kappa> - R) ln(p2/p1)\<close>, which vanishes only if the three constants of the
  gas agree with each other.
\<close>

lemma ideal_compression_entropy:
  assumes "\<not> intercooling slv" and "1 \<le> compressor_efficiency slv" and "use_const_cp slv"
    and "self_kappa slv = Some k" and "k \<noteq> 0" and "cp_const slv = Some c"
    and "states slv (IntKey 1) = Some st1" and "0 < p_val st1" and "0 < T_val st1"
    and "0 < p2" and "gas_entry (gas slv) = Inr g"
  shows "\<exists>slv' st2. calculate_state_2 p2 slv = (Inr (), slv')
           \<and> states slv' (IntKey 2) = Some st2 \<and> states slv' (IntKey 1) = Some st1
           \<and> s_val st2 = s_val st1 + (c * ((k - 1) / k) - self_R slv) * ln (p2 / p_val st1)"
  using assms
  by (simp add: calculate_state_2_def calculate_state_2_isentropic_def
      calculate_state_2_real_def calc_defs specific_volume_def fdiv_def
      isentropic_temperature_def entropy_change_def fpow_def flog_def Let_def algebra_simps)

text \<open>
  Claim C3. The claim says that for constant cp and efficiency 1 the stored entropy of
  state 2 equals that of state 1. For air (cp = 1005, \<kappa> = 1.4, R = 287.058), p1 = 1 bar,
  T1 = 293.15 K and p2 = 8 bar the calls return, s1 is 0 and s2 is
  \<open>(1005 \<cdot> 2/7 - 287.058) ln 8\<close>, more than 0.08 J/(kg K).
\<close>

theorem ideal_compression_entropy_air:
  "fst (calculate_state_2 800000 inlet_solver) = Inr ()
     \<and> map_option s_val (states (snd (calculate_state_2 800000 inlet_solver)) (IntKey 1))
         = Some 0
     \<and> map_option s_val (states (snd (calculate_state_2 800000 inlet_solver)) (IntKey 2))
         = Some ((1005 * (2 / 7) - 287.058) * ln 8)
     \<and> 0.08 < (1005 * (2 / 7) - 287.058) * ln (8::real)"
proof -
  have "0.08 < (1005 * (2 / 7) - 287.058) * (1::real)" by simp
  also have "\<dots> \<le> (1005 * (2 / 7) - 287.058) * ln (8::real)"
    using ln_8_ge_1 by (intro mult_left_mono) simp_all
  finally have b: "0.08 < (1005 * (2 / 7) - 287.058) * ln (8::real)" .
  show ?thesis using b
    by (simp add: calculate_state_2_def calculate_state_2_isentropic_def
        calculate_state_2_real_def inlet_solver_def calculate_state_1_def calc_defs
        specific_volume_def fdiv_def air_solver_def gas_entry_air isentropic_temperature_def
        entropy_change_def fpow_def flog_def Let_def algebra_simps)
qed

section \<open>Efficiency corrections of compressor and turbine in exact arithmetic\<close>

text \<open>
  The lemmas of this section are facts of exact real arithmetic. They do not carry over to
  the double precision numbers the solver computes with. There the power
  \<open>(p2/p1)^((k-1)/k)\<close> rounds to 1 when \<open>p2\<close> is within a few units in the last place of
  \<open>p1\<close>: the isentropic and the real outlet temperature then both equal the inlet
  temperature, and with the variable heat capacity the quotient
  \<open>(h2s - h1) / (T2s - T1)\<close> is zero by zero and raises. Likewise the quotient by an
  efficiency one unit in the last place below 1 can round to an outlet temperature equal
  to the isentropic one. Whether the inequalities below are strict at a given input, and
  whether the call returns, is there decided by the rounding, which the real numbers of
  this theory do not have.
\<close>

lemma cp_returns:
  assumes "gas_entry gk = Inr g"
  shows "\<exists>c. cp Ta gk False = Inr c"
  using assms by (cases "g_cp_coeffs g") (simp add: cp_def bindE_def)

lemma cp_mean_returns:
  assumes "gas_entry gk = Inr g"
  shows "\<exists>c. cp_mean Ta Tb gk False = Inr c"
proof -
  obtain c1 c2 where "cp Ta gk False = Inr c1" "cp Tb gk False = Inr c2"
    using cp_returns [OF assms] by blast
  then have "cp_mean Ta Tb gk False = Inr ((c1 + c2) / 2)"
    by (simp add: cp_mean_def bindE_def)
  then show ?thesis ..
qed

lemma compression_ratio_powr:
  fixes r k :: real
  assumes "1 < r" and "1 < k"
  shows "1 < r powr ((k - 1) / k)"
proof -
  have "0 < k - 1" and "0 < k" using assms by simp_all
  then have "0 < (k - 1) / k" by (rule divide_pos_pos)
  with assms(1) show ?thesis by (rule gr_one_powr)
qed


lemma inlet_solver_fields:
  "gas inlet_solver = ''air''" "use_const_cp inlet_solver"
  "self_kappa inlet_solver = Some 1.4" "cp_const inlet_solver = Some 1005"
  "self_R inlet_solver = 287.058"
  "\<not> intercooling inlet_solver" "compressor_efficiency inlet_solver = 1"
  by (simp_all add: inlet_solver_def calculate_state_1_def calc_defs specific_volume_def
      fdiv_def air_solver_def gas_entry_air)


lemma expansion_ratio_powr:
  fixes r k :: real
  assumes "0 < r" and "r < 1" and "1 < k"
  shows "r powr ((k - 1) / k) < 1"
proof -
  have "0 < k - 1" and "0 < k" using assms by simp_all
  then have "0 < (k - 1) / k" by (rule divide_pos_pos)
  then have "r powr ((k - 1) / k) < 1 powr ((k - 1) / k)"
    using assms by (intro powr_less_mono2) simp_all
  then show ?thesis by simp
qed


text \<open>
  Exact arithmetic, compressor. Let state 1 be present with positive pressure and temperature, let
  \<open>p2 > p1\<close>, let the compressor efficiency lie strictly between 0 and 1 and let the
  isentropic exponent \<open>k\<close> that the method uses (the constant one, or the estimate of
  the variable-cp model) exceed 1. Then single-stage \<open>calculate_state_2\<close> returns, stores
  \<open>T2s = T1 (p2/p1)^((k-1)/k)\<close> and \<open>T2 = T1 + (T2s - T1) / \<eta>\<close>, and the real rise
  \<open>T2 - T1\<close> is strictly greater than the isentropic rise \<open>T2s - T1\<close>.
\<close>

lemma exact_compressor_rise_exceeds_isentropic:
  assumes ic: "\<not> intercooling slv" and g: "gas_entry (gas slv) = Inr g"
    and s1: "states slv (IntKey 1) = Some st1"
    and p1: "0 < p_val st1" and T1: "0 < T_val st1" and p2: "p_val st1 < p2"
    and e0: "0 < compressor_efficiency slv" and e1: "compressor_efficiency slv < 1"
    and kk: "if use_const_cp slv then self_kappa slv = Some k \<and> cp_const slv \<noteq> None
         else kappa_estimate (gas slv) (T_val st1) (p_val st1) p2 = Inr k"
    and k1: "1 < k"
  shows "\<exists>slv' st2 st2s. calculate_state_2 p2 slv = (Inr (), slv')
           \<and> states slv' (IntKey 2) = Some st2 \<and> states slv' (StrKey ''2s'') = Some st2s
           \<and> T_val st2s = T_val st1 * (p2 / p_val st1) powr ((k - 1) / k)
           \<and> T_val st2 = T_val st1 + (T_val st2s - T_val st1) / compressor_efficiency slv
           \<and> T_val st2s - T_val st1 < T_val st2 - T_val st1"
proof -
  define r where "r = p2 / p_val st1"
  define T2s where "T2s = T_val st1 * r powr ((k - 1) / k)"
  define dT where "dT = (T2s - T_val st1) / compressor_efficiency slv"
  define T2 where "T2 = T_val st1 + dT"
  have r1: "1 < r" using p1 p2 by (simp add: r_def)
  have pw: "1 < r powr ((k - 1) / k)" using r1 k1 by (rule compression_ratio_powr)
  have rise: "0 < T2s - T_val st1" using pw T1 by (simp add: T2s_def)
  have "(T2s - T_val st1) * compressor_efficiency slv < (T2s - T_val st1) * 1"
    using rise e1 by (intro mult_strict_left_mono) simp_all
  then have more: "T2s - T_val st1 < dT"
    using e0 unfolding dT_def by (simp add: pos_less_divide_eq)
  have T2pos: "0 < T2" using more rise T1 by (simp add: T2_def)
  have q: "0 < T2 / T_val st1" using T2pos T1 by simp
  obtain c1 where c1: "cp_mean (T_val st1) T2s (gas slv) False = Inr c1"
    using cp_mean_returns [OF g] by blast
  obtain c2 where c2: "cp_mean (T_val st1) T2 (gas slv) False = Inr c2"
    using cp_mean_returns [OF g] by blast
  have facts: "p_val st1 \<noteq> 0" "0 < p2 / p_val st1" "k \<noteq> 0" "p2 \<noteq> 0" "T2s \<noteq> T_val st1"
    "compressor_efficiency slv \<noteq> 0" "T_val st1 \<noteq> 0" "0 < r"
    using p1 p2 k1 rise e0 T1 r1 by simp_all
  show ?thesis
  proof (cases "use_const_cp slv")
    case True
    with kk obtain c where k: "self_kappa slv = Some k" and c: "cp_const slv = Some c" by auto
    show ?thesis
      using ic g s1 True k c facts q more e1
      unfolding T2_def dT_def T2s_def r_def
      by (simp add: calculate_state_2_def calculate_state_2_isentropic_def
          calculate_state_2_real_def calc_defs specific_volume_def fdiv_def
          isentropic_temperature_def entropy_change_def fpow_def flog_def Let_def)
  next
    case False
    with kk have k: "kappa_estimate (gas slv) (T_val st1) (p_val st1) p2 = Inr k" by simp
    show ?thesis
      using ic g s1 False k c1 c2 facts q more e1
      unfolding T2_def dT_def T2s_def r_def
      by (simp add: calculate_state_2_def calculate_state_2_isentropic_def
          calculate_state_2_real_def calc_defs specific_volume_def fdiv_def
          isentropic_temperature_def entropy_change_def fpow_def flog_def Let_def)
  qed
qed

lemma exact_compressor_rise_example:
  "\<not> intercooling (inlet_solver\<lparr>compressor_efficiency := 0.85\<rparr>)
   \<and> states (inlet_solver\<lparr>compressor_efficiency := 0.85\<rparr>) (IntKey 1)
       = Some \<lparr>p_val = 100000, T_val = 293.15, v_val = 287.058 * 293.15 / 100000,
                h_val = 0, s_val = 0\<rparr>
   \<and> (100000::real) < 800000
   \<and> 0 < compressor_efficiency (inlet_solver\<lparr>compressor_efficiency := 0.85\<rparr>)
   \<and> compressor_efficiency (inlet_solver\<lparr>compressor_efficiency := 0.85\<rparr>) < 1
   \<and> self_kappa (inlet_solver\<lparr>compressor_efficiency := 0.85\<rparr>) = Some 1.4
   \<and> (\<exists>slv' st2 st2s.
         calculate_state_2 800000 (inlet_solver\<lparr>compressor_efficiency := 0.85\<rparr>) = (Inr (), slv')
         \<and> states slv' (IntKey 2) = Some st2 \<and> states slv' (StrKey ''2s'') = Some st2s
         \<and> T_val st2s = 293.15 * 8 powr (2 / 7)
         \<and> T_val st2 = 293.15 + (T_val st2s - 293.15) / 0.85
         \<and> T_val st2s - 293.15 < T_val st2 - 293.15)"
proof -
  let ?slv = "inlet_solver\<lparr>compressor_efficiency := 0.85\<rparr>"
  let ?st1 = "\<lparr>p_val = 100000, T_val = 293.15, v_val = 287.058 * 293.15 / 100000,
                h_val = 0, s_val = 0\<rparr>"
  have ic: "\<not> intercooling ?slv" by (simp add: inlet_solver_fields)
  have g: "gas_entry (gas ?slv) = gas_entry ''air''" by (simp add: inlet_solver_fields)
  have s1: "states ?slv (IntKey 1) = Some ?st1" by (simp add: inlet_solver_states)
  have kk: "if use_const_cp ?slv then self_kappa ?slv = Some 1.4 \<and> cp_const ?slv \<noteq> None
            else kappa_estimate (gas ?slv) (T_val ?st1) (p_val ?st1) 800000 = Inr 1.4"
    by (simp add: inlet_solver_fields)
  from exact_compressor_rise_exceeds_isentropic [OF ic g [unfolded gas_entry_air] s1 _ _ _ _ _ kk]
  show ?thesis by (simp add: inlet_solver_fields inlet_solver_states)
qed


text \<open>
  Exact arithmetic, turbine. Let state 3 be present with positive temperature, let \<open>0 < p4 < p3\<close>, let the
  turbine efficiency lie strictly between 0 and 1 and let the isentropic exponent \<open>k\<close>
  that the method uses exceed 1. Then \<open>calculate_state_4\<close> returns, stores
  \<open>T4s = T3 (p4/p3)^((k-1)/k)\<close> and \<open>T4 = T3 - (T3 - T4s) \<eta>\<close> (a product, not a
  quotient), and the real drop \<open>T3 - T4\<close> is strictly less than the isentropic drop
  \<open>T3 - T4s\<close>.
\<close>

lemma exact_turbine_drop_below_isentropic:
  assumes g: "gas_entry (gas slv) = Inr g"
    and s3: "states slv (IntKey 3) = Some st3"
    and p4: "0 < p4" and p3: "p4 < p_val st3" and T3: "0 < T_val st3"
    and e0: "0 < turbine_efficiency slv" and e1: "turbine_efficiency slv < 1"
    and kk: "if use_const_cp slv then self_kappa slv = Some k \<and> cp_const slv \<noteq> None
         else kappa_estimate (gas slv) (T_val st3) (p_val st3) p4 = Inr k"
    and k1: "1 < k"
  shows "\<exists>slv' st4 st4s. calculate_state_4 p4 slv = (Inr (), slv')
           \<and> states slv' (IntKey 4) = Some st4 \<and> states slv' (StrKey ''4s'') = Some st4s
           \<and> T_val st4s = T_val st3 * (p4 / p_val st3) powr ((k - 1) / k)
           \<and> T_val st4 = T_val st3 - (T_val st3 - T_val st4s) * turbine_efficiency slv
           \<and> T_val st3 - T_val st4 < T_val st3 - T_val st4s"
proof -
  define r where "r = p4 / p_val st3"
  define T4s where "T4s = T_val st3 * r powr ((k - 1) / k)"
  define dT where "dT = (T_val st3 - T4s) * turbine_efficiency slv"
  define T4 where "T4 = T_val st3 - dT"
  have r0: "0 < r" and r1: "r < 1" using p4 p3 by (simp_all add: r_def)
  have pw: "r powr ((k - 1) / k) < 1" using r0 r1 k1 by (rule expansion_ratio_powr)
  have pw0: "0 < r powr ((k - 1) / k)" using r0 by simp
  have T4s0: "0 < T4s" using pw0 T3 by (simp add: T4s_def)
  have "T_val st3 * r powr ((k - 1) / k) < T_val st3 * 1"
    using pw T3 by (intro mult_strict_left_mono) simp_all
  then have drop: "0 < T_val st3 - T4s" by (simp add: T4s_def)
  have less: "dT < T_val st3 - T4s"
  proof -
    have "(T_val st3 - T4s) * turbine_efficiency slv < (T_val st3 - T4s) * 1"
      using drop e1 by (intro mult_strict_left_mono) simp_all
    then show ?thesis by (simp add: dT_def)
  qed
  have T4pos: "0 < T4" using less T4s0 by (simp add: T4_def)
  have q: "0 < T4 / T_val st3" using T4pos T3 by simp
  obtain c1 where c1: "cp_mean (T_val st3) T4s (gas slv) False = Inr c1"
    using cp_mean_returns [OF g] by blast
  obtain c2 where c2: "cp_mean (T_val st3) T4 (gas slv) False = Inr c2"
    using cp_mean_returns [OF g] by blast
  have facts: "p_val st3 \<noteq> 0" "0 < p4 / p_val st3" "k \<noteq> 0" "p4 \<noteq> 0" "T4s \<noteq> T_val st3"
    "T_val st3 \<noteq> 0" "0 < r"
    using p4 p3 k1 drop T3 r0 by simp_all
  show ?thesis
  proof (cases "use_const_cp slv")
    case True
    with kk obtain c where k: "self_kappa slv = Some k" and c: "cp_const slv = Some c" by auto
    show ?thesis
      using g s3 True k c facts q less e1
      unfolding T4_def dT_def T4s_def r_def
      by (simp add: calculate_state_4_def calculate_state_4_isentropic_def
          calculate_state_4_real_def calc_defs specific_volume_def fdiv_def
          isentropic_temperature_def entropy_change_def fpow_def flog_def Let_def)
  next
    case False
    with kk have k: "kappa_estimate (gas slv) (T_val st3) (p_val st3) p4 = Inr k" by simp
    show ?thesis
      using g s3 False k c1 c2 facts q less e1
      unfolding T4_def dT_def T4s_def r_def
      by (simp add: calculate_state_4_def calculate_state_4_isentropic_def
          calculate_state_4_real_def calc_defs specific_volume_def fdiv_def
          isentropic_temperature_def entropy_change_def fpow_def flog_def Let_def)
  qed
qed


lemma exact_turbine_drop_example:
  "states (cycle_solver\<lparr>turbine_efficiency := 0.9\<rparr>) (IntKey 3) = Some cycle_state_3
   \<and> (0::real) < 100000 \<and> 100000 < p_val cycle_state_3 \<and> 0 < T_val cycle_state_3
   \<and> 0 < turbine_efficiency (cycle_solver\<lparr>turbine_efficiency := 0.9\<rparr>)
   \<and> turbine_efficiency (cycle_solver\<lparr>turbine_efficiency := 0.9\<rparr>) < 1
   \<and> self_kappa (cycle_solver\<lparr>turbine_efficiency := 0.9\<rparr>) = Some 1.4
   \<and> (\<exists>slv' st4 st4s.
         calculate_state_4 100000 (cycle_solver\<lparr>turbine_efficiency := 0.9\<rparr>) = (Inr (), slv')
         \<and> states slv' (IntKey 4) = Some st4 \<and> states slv' (StrKey ''4s'') = Some st4s
         \<and> T_val st4s = 1200 * (1 / 8) powr (2 / 7)
         \<and> T_val st4 = 1200 - (1200 - T_val st4s) * 0.9
         \<and> 1200 - T_val st4 < 1200 - T_val st4s)"
proof -
  let ?slv = "cycle_solver\<lparr>turbine_efficiency := 0.9\<rparr>"
  have g: "gas_entry (gas ?slv) = gas_entry ''air''"
    by (simp add: cycle_solver_def air_solver_def)
  have s3: "states ?slv (IntKey 3) = Some cycle_state_3" by (simp add: cycle_solver_def)
  have kk: "if use_const_cp ?slv then self_kappa ?slv = Some 1.4 \<and> cp_const ?slv \<noteq> None
            else kappa_estimate (gas ?slv) (T_val cycle_state_3) (p_val cycle_state_3) 100000
                   = Inr 1.4"
    by (simp add: cycle_solver_def air_solver_def)
  from exact_turbine_drop_below_isentropic [OF g [unfolded gas_entry_air] s3 _ _ _ _ _ kk]
  show ?thesis by (simp add: cycle_solver_def air_solver_def cycle_state_3_def)
qed

section \<open>Process properties when regeneration was not feasible\<close>

lemma reg_indep_prims:
  "reg_indep (ret x)" "reg_indep (lift r)" "reg_indep (add_step t res c)"
  "reg_indep (get_state k)"
  by (simp_all add: reg_indep_def calc_defs split: option.splits)

lemma reg_indep_bnd:
  assumes "reg_indep m" and "\<And>x. reg_indep (f x)"
  shows "reg_indep (bnd m f)"
  using assms unfolding reg_indep_def bnd_def
  by (auto split: prod.splits sum.splits)

lemma reg_indep_if:
  "reg_indep a \<Longrightarrow> reg_indep b \<Longrightarrow> reg_indep (if c then a else b)"
  by simp

lemma reg_indep_body: "reg_indep (process_properties_with hic reg2 reg4 reg24 h12 h13 mflow)"
  unfolding process_properties_with_def Let_def
  by (intro reg_indep_bnd reg_indep_if reg_indep_prims | simp only: split_def)+


lemma bnd_Inr:
  "bnd m f s = (Inr y, s'') \<longleftrightarrow> (\<exists>x s'. m s = (Inr x, s') \<and> f x s' = (Inr y, s''))"
  by (auto simp: bnd_def split: prod.splits sum.splits)

lemma get_state_Inr: "get_state k s = (Inr st, s') \<longleftrightarrow> states s k = Some st \<and> s' = s"
  by (auto simp: get_state_def split: option.splits)

lemma add_step_Inr:
  "add_step t r c s = (Inr u, s')
     \<longleftrightarrow> s' = s\<lparr>steps := steps s @ [\<lparr>title = t, result = r, category = c\<rparr>]\<rparr>"
  by (auto simp: add_step_def)

lemma lift_Inr: "lift r s = (Inr x, s') \<longleftrightarrow> r = Inr x \<and> s' = s"
  by (auto simp: lift_def)

lemma ret_Inr: "ret x s = (Inr y, s') \<longleftrightarrow> y = x \<and> s' = s"
  by (auto simp: ret_def)

lemmas calc_Inr = bnd_Inr get_state_Inr add_step_Inr lift_Inr ret_Inr

lemma build_properties_heat:
  "build_properties w_comp w_turb w_kp q_in q_out eta_th T_m_zu T_m_ab ic False q_reg mflow
     ''q_in'' = Some q_in"
  "build_properties w_comp w_turb w_kp q_in q_out eta_th T_m_zu T_m_ab ic False q_reg mflow
     ''q_out'' = Some q_out"
  "build_properties w_comp w_turb w_kp q_in q_out eta_th T_m_zu T_m_ab ic False q_reg mflow
     ''q_reg'' = None"
  "build_properties w_comp w_turb w_kp q_in q_out eta_th T_m_zu T_m_ab ic False q_reg mflow
     ''Q_reg'' = None"
  by (simp_all add: build_properties_def Let_def split: option.splits)

lemma heat_values:
  assumes "process_properties_with hic False False False h12 h13 mflow slv = (Inr props, slv')"
  shows "\<exists>st1 st2 st3 st4.
           states slv (IntKey 1) = Some st1 \<and> states slv (IntKey 2) = Some st2
           \<and> states slv (IntKey 3) = Some st3 \<and> states slv (IntKey 4) = Some st4
           \<and> props ''q_in'' = Some (h_val st3 - h_val st2)
           \<and> props ''q_out'' = Some (h_val st4 - h_val st1)
           \<and> props ''q_reg'' = None \<and> props ''Q_reg'' = None"
  using assms unfolding process_properties_with_def
  by (auto simp: calc_Inr Let_def build_properties_heat split: if_splits)



text \<open>
  Claim C6. Let regeneration be enabled and let neither "2*" nor "4*" be in the state map.
  Then \<open>calculate_process_properties\<close> does what it does with regeneration disabled:
  result, steps and solver are those of the call on the solver with the flag cleared
  (up to the flag itself). Whenever it returns a dictionary, \<open>q_in\<close> is \<open>h3 - h2\<close>,
  \<open>q_out\<close> is \<open>h4 - h1\<close>, and the keys \<open>q_reg\<close> and \<open>Q_reg\<close> are absent.
\<close>

theorem infeasible_regeneration_like_disabled:
  assumes reg: "regeneration slv"
    and n2: "states slv (StrKey ''2*'') = None" and n4: "states slv (StrKey ''4*'') = None"
  shows "calculate_process_properties slv
           = (case calculate_process_properties (slv\<lparr>regeneration := False\<rparr>) of
                (r, slv') \<Rightarrow> (r, slv'\<lparr>regeneration := True\<rparr>))
         \<and> (\<forall>props slv'. calculate_process_properties slv = (Inr props, slv') \<longrightarrow>
              (\<exists>st1 st2 st3 st4.
                 states slv (IntKey 1) = Some st1 \<and> states slv (IntKey 2) = Some st2
                 \<and> states slv (IntKey 3) = Some st3 \<and> states slv (IntKey 4) = Some st4
                 \<and> props ''q_in'' = Some (h_val st3 - h_val st2)
                 \<and> props ''q_out'' = Some (h_val st4 - h_val st1)
                 \<and> props ''q_reg'' = None \<and> props ''Q_reg'' = None))"
proof
  let ?F = "process_properties_with
       (has_state slv (StrKey ''2a'') \<and> has_state slv (StrKey ''2b'')
          \<and> has_state slv (StrKey ''2c''))
       False False False
       (has_state slv (IntKey 1) \<and> has_state slv (IntKey 2))
       (has_state slv (IntKey 1) \<and> has_state slv (IntKey 3))
       (mass_flow slv)"
  let ?off = "slv\<lparr>regeneration := False\<rparr>"
  have ind: "?F (s\<lparr>regeneration := b\<rparr>)
               = (case ?F s of (r, s') \<Rightarrow> (r, s'\<lparr>regeneration := b\<rparr>))" for s b
    using reg_indep_body unfolding reg_indep_def by blast
  have on: "calculate_process_properties slv = ?F slv"
    using n2 n4 by (simp add: calculate_process_properties_def has_state_def with_self_def)
  have off: "calculate_process_properties ?off = ?F ?off"
    using n2 n4 by (simp add: calculate_process_properties_def has_state_def with_self_def)
  obtain r0 s0 where F: "?F slv = (r0, s0)" by (cases "?F slv")
  have "slv\<lparr>regeneration := True\<rparr> = slv" using reg by simp
  with ind [where s = slv and b = True] F have s0: "s0\<lparr>regeneration := True\<rparr> = s0" by simp
  have "?F ?off = (r0, s0\<lparr>regeneration := False\<rparr>)" using ind [where s = slv and b = False] F by simp
  with on off F s0
  show "calculate_process_properties slv
           = (case calculate_process_properties (slv\<lparr>regeneration := False\<rparr>) of
                (r, slv') \<Rightarrow> (r, slv'\<lparr>regeneration := True\<rparr>))"
    by simp
next
  show "\<forall>props slv'. calculate_process_properties slv = (Inr props, slv') \<longrightarrow>
              (\<exists>st1 st2 st3 st4.
                 states slv (IntKey 1) = Some st1 \<and> states slv (IntKey 2) = Some st2
                 \<and> states slv (IntKey 3) = Some st3 \<and> states slv (IntKey 4) = Some st4
                 \<and> props ''q_in'' = Some (h_val st3 - h_val st2)
                 \<and> props ''q_out'' = Some (h_val st4 - h_val st1)
                 \<and> props ''q_reg'' = None \<and> props ''Q_reg'' = None)"
    using n2 n4 heat_values
    by (simp add: calculate_process_properties_def has_state_def with_self_def)
qed

lemma cycle_solver_properties_return:
  "\<exists>props. fst (calculate_process_properties cycle_solver) = Inr props"
  by (simp add: calculate_process_properties_def process_properties_with_def calc_defs
      cycle_solver_def air_solver_def cycle_state_1_def cycle_state_2_def cycle_state_3_def
      cycle_state_4_def fdiv_def flog_def mean_temperature_def Let_def)

theorem infeasible_regeneration_like_disabled_witness:
  "regeneration cycle_solver
   \<and> states cycle_solver (StrKey ''2*'') = None \<and> states cycle_solver (StrKey ''4*'') = None
   \<and> (\<exists>props. fst (calculate_process_properties cycle_solver) = Inr props
         \<and> props ''q_in'' = Some (h_val cycle_state_3 - h_val cycle_state_2)
         \<and> props ''q_out'' = Some (h_val cycle_state_4 - h_val cycle_state_1)
         \<and> props ''q_reg'' = None)"
proof -
  have reg: "regeneration cycle_solver"
    and n2: "states cycle_solver (StrKey ''2*'') = None"
    and n4: "states cycle_solver (StrKey ''4*'') = None"
    by (simp_all add: cycle_solver_def)
  obtain props slv' where r: "calculate_process_properties cycle_solver = (Inr props, slv')"
    using cycle_solver_properties_return by (metis prod.collapse)
  from infeasible_regeneration_like_disabled [OF reg n2 n4] r
  have "\<exists>st1 st2 st3 st4.
          states cycle_solver (IntKey 1) = Some st1 \<and> states cycle_solver (IntKey 2) = Some st2
          \<and> states cycle_solver (IntKey 3) = Some st3 \<and> states cycle_solver (IntKey 4) = Some st4
          \<and> props ''q_in'' = Some (h_val st3 - h_val st2)
          \<and> props ''q_out'' = Some (h_val st4 - h_val st1)
          \<and> props ''q_reg'' = None \<and> props ''Q_reg'' = None"
    by blast
  then have "props ''q_in'' = Some (h_val cycle_state_3 - h_val cycle_state_2)
       \<and> props ''q_out'' = Some (h_val cycle_state_4 - h_val cycle_state_1)
       \<and> props ''q_reg'' = None"
    by (auto simp: cycle_solver_def)
  with reg n2 n4 r show ?thesis by auto
qed

section \<open>Consistency of the stored states in exact arithmetic\<close>

text \<open>
  Every store into the state map takes the specific volume from \<open>specific_volume\<close> at the
  stored pressure and temperature. Over the real numbers, and as long as every
  intermediate value is finite, this makes \<open>v = R T / p\<close> and \<open>v p / R = T\<close> an invariant of
  the state map. The invariant does not carry over to the double precision numbers of the
  solver. With numpy operands (the intermediate pressure \<open>np.sqrt(p1 * p2)\<close> and what is
  computed from it) a division by zero does not raise: the intercooled
  \<open>calculate_state_2(0.0)\<close> stores "2a" with \<open>p = 0\<close>, \<open>T = 0\<close> and \<open>v = nan\<close>, where this
  theory stops with \<open>ArithmeticFault\<close> and stores nothing. And for finite values the
  equation \<open>v p / R = T\<close> holds up to rounding only (\<open>R = 287.058\<close>, \<open>T = 1500\<close>,
  \<open>p = 100000\<close> give back \<open>1499.9999999999998\<close>).
\<close>

lemma gas_constant_nonzero: "GAS_PROPERTIES gk = Some g \<Longrightarrow> g_R g \<noteq> 0"
  by (auto simp: GAS_PROPERTIES_def split: if_splits)

lemma specific_volume_consistent:
  assumes "specific_volume pr T gk = Inr v"
  shows "consistent_for gk \<lparr>p_val = pr, T_val = T, v_val = v, h_val = h, s_val = s\<rparr>"
proof -
  from assms obtain g where g: "GAS_PROPERTIES gk = Some g"
    and v: "fdiv (g_R g * T) pr = Inr v"
    by (auto simp: specific_volume_def gas_entry_def bindE_def split: option.splits)
  from v have "pr \<noteq> 0" and "v = g_R g * T / pr"
    by (auto simp: fdiv_def split: if_splits)
  with gas_constant_nonzero [OF g] g show ?thesis
    by (simp add: consistent_for_def consistent_def)
qed

lemma keeps_ret: "Q x \<Longrightarrow> keeps gk (ret x) Q"
  by (simp add: keeps_def ret_def)

lemma keeps_raise: "keeps gk (raise e) Q"
  by (simp add: keeps_def raise_def)

lemma keeps_lift: "(\<And>x. r = Inr x \<Longrightarrow> Q x) \<Longrightarrow> keeps gk (lift r) Q"
  by (simp add: keeps_def lift_def)

lemma keeps_attr: "(\<And>x. Q x) \<Longrightarrow> keeps gk (attr nm a) Q"
  by (cases a) (simp_all add: keeps_def attr_def ret_def raise_def)

lemma keeps_add_step: "Q () \<Longrightarrow> keeps gk (add_step t res c) Q"
  by (auto simp: keeps_def add_step_def states_consistent_def)

lemma keeps_set_state: "consistent_for gk st \<Longrightarrow> Q () \<Longrightarrow> keeps gk (set_state k st) Q"
  by (auto simp: keeps_def set_state_def states_consistent_def)

lemma keeps_get_state: "(\<And>st. consistent_for gk st \<Longrightarrow> Q st) \<Longrightarrow> keeps gk (get_state k) Q"
  unfolding keeps_def get_state_def
  by (simp add: states_consistent_def split: option.splits) blast

lemma keeps_modify:
  "(\<And>s. gas (f s) = gas s \<and> states (f s) = states s) \<Longrightarrow> Q () \<Longrightarrow> keeps gk (modify f) Q"
  by (auto simp: keeps_def modify_def states_consistent_def)

lemma keeps_with_self:
  "(\<And>self. gas self = gk \<Longrightarrow> keeps gk (F self) Q) \<Longrightarrow> keeps gk (with_self F) Q"
  unfolding keeps_def with_self_def by blast

lemma keeps_weaken: "keeps gk m P \<Longrightarrow> (\<And>x. P x \<Longrightarrow> Q x) \<Longrightarrow> keeps gk m Q"
  unfolding keeps_def by blast

lemma keeps_bnd:
  assumes "keeps gk m P" and "\<And>x. P x \<Longrightarrow> keeps gk (f x) Q"
  shows "keeps gk (bnd m f) Q"
  unfolding keeps_def
proof (intro allI impI, elim conjE)
  fix s r s'
  assume g: "gas s = gk" and i: "states_consistent s" and b: "bnd m f s = (r, s')"
  obtain r1 s1 where m: "m s = (r1, s1)" by (cases "m s")
  from assms(1) g i m have 1: "gas s1 = gk" "states_consistent s1" "\<forall>x. r1 = Inr x \<longrightarrow> P x"
    unfolding keeps_def by blast+
  show "gas s' = gk \<and> states_consistent s' \<and> (\<forall>x. r = Inr x \<longrightarrow> Q x)"
  proof (cases r1)
    case (Inl e)
    with b m 1 show ?thesis by (auto simp: bnd_def)
  next
    case (Inr x)
    with b m have "f x s1 = (r, s')" by (simp add: bnd_def)
    moreover from Inr 1 have "keeps gk (f x) Q" using assms(2) by blast
    ultimately show ?thesis using 1 unfolding keeps_def by blast
  qed
qed

lemma keeps_bnd_lift:
  "(\<And>x. r = Inr x \<Longrightarrow> keeps gk (f x) Q) \<Longrightarrow> keeps gk (bnd (lift r) f) Q"
  by (rule keeps_bnd [where P = "\<lambda>x. r = Inr x"]) (rule keeps_lift, assumption)

lemma keeps_bnd_attr:
  "(\<And>x. keeps gk (f x) Q) \<Longrightarrow> keeps gk (bnd (attr nm a) f) Q"
  by (rule keeps_bnd [where P = "\<lambda>x. True"]) (rule keeps_attr, rule TrueI)

lemma keeps_bnd_add_step:
  "keeps gk (f ()) Q \<Longrightarrow> keeps gk (bnd (add_step t res c) f) Q"
  by (rule keeps_bnd [where P = "\<lambda>x. True"]) (rule keeps_add_step, rule TrueI, simp)

lemma keeps_bnd_get_state:
  "(\<And>st. consistent_for gk st \<Longrightarrow> keeps gk (f st) Q) \<Longrightarrow> keeps gk (bnd (get_state k) f) Q"
  by (rule keeps_bnd [where P = "consistent_for gk"]) (rule keeps_get_state, assumption)

lemma keeps_bnd_set_state:
  "consistent_for gk st \<Longrightarrow> keeps gk (f ()) Q \<Longrightarrow> keeps gk (bnd (set_state k st) f) Q"
  by (rule keeps_bnd [where P = "\<lambda>x. True"]) (rule keeps_set_state, assumption, rule TrueI, simp)

lemma keeps_bnd_modify:
  "(\<And>s. gas (g s) = gas s \<and> states (g s) = states s) \<Longrightarrow> keeps gk (f ()) Q
     \<Longrightarrow> keeps gk (bnd (modify g) f) Q"
  by (rule keeps_bnd [where P = "\<lambda>x. True"]) (rule keeps_modify, assumption, rule TrueI, simp)

lemma keeps_bnd_ret: "keeps gk (f x) Q \<Longrightarrow> keeps gk (bnd (ret x) f) Q"
  by (rule keeps_bnd [where P = "\<lambda>y. y = x"]) (rule keeps_ret, rule refl, simp)

lemma bnd_assoc: "bnd (bnd m g) f = bnd m (\<lambda>x. bnd (g x) f)"
proof
  fix s
  show "bnd (bnd m g) f s = bnd m (\<lambda>x. bnd (g x) f) s"
  proof (cases "m s")
    case (Pair r1 s1)
    then show ?thesis by (cases r1) (simp_all add: bnd_def)
  qed
qed

lemma keeps_bnd_bnd:
  "keeps gk (bnd m (\<lambda>x. bnd (g x) f)) Q \<Longrightarrow> keeps gk (bnd (bnd m g) f) Q"
  by (simp only: bnd_assoc)

lemma keeps_if:
  "(c \<Longrightarrow> keeps gk a Q) \<Longrightarrow> (\<not> c \<Longrightarrow> keeps gk b Q) \<Longrightarrow> keeps gk (if c then a else b) Q"
  by (cases c) simp_all

lemma keeps_bnd_if:
  "(c \<Longrightarrow> keeps gk (bnd a f) Q) \<Longrightarrow> (\<not> c \<Longrightarrow> keeps gk (bnd b f) Q)
     \<Longrightarrow> keeps gk (bnd (if c then a else b) f) Q"
  by (cases c) simp_all

lemma keeps_bnd_case_option:
  "(a = None \<Longrightarrow> keeps gk (bnd n f) Q) \<Longrightarrow> (\<And>x. a = Some x \<Longrightarrow> keeps gk (bnd (g x) f) Q)
     \<Longrightarrow> keeps gk (bnd (case a of None \<Rightarrow> n | Some x \<Rightarrow> g x) f) Q"
  by (cases a) simp_all

lemmas keeps_rules = keeps_with_self keeps_bnd_lift keeps_bnd_attr keeps_bnd_add_step
  keeps_bnd_get_state keeps_bnd_set_state keeps_bnd_modify keeps_bnd_ret keeps_bnd_bnd
  keeps_bnd_if keeps_bnd_case_option keeps_raise keeps_if keeps_set_state keeps_add_step
  keeps_ret

lemma calculate_state_1_keeps: "keeps gk (calculate_state_1 p1 T1) (\<lambda>_. True)"
  unfolding calculate_state_1_def
  by (intro keeps_rules TrueI) (auto intro: specific_volume_consistent)

lemma calculate_state_2_isentropic_keeps:
  "keeps gk (calculate_state_2_isentropic p2) (consistent_for gk)"
  unfolding calculate_state_2_isentropic_def Let_def
  by (intro keeps_rules TrueI) (auto intro: specific_volume_consistent)

lemma calculate_state_2_real_keeps:
  "keeps gk (calculate_state_2_real p2 st2s) (\<lambda>_. True)"
  unfolding calculate_state_2_real_def Let_def split_def
  by (intro keeps_rules TrueI) (auto intro: specific_volume_consistent)

lemma compression_stage_keeps:
  "keeps gk (compression_stage ttls cat kr ks pa Ta ha sa pb) (consistent_for gk)"
  unfolding compression_stage_def Let_def split_def
  by (intro keeps_rules TrueI) (auto intro: specific_volume_consistent)

lemma calculate_state_2_with_intercooling_keeps:
  "keeps gk (calculate_state_2_with_intercooling p2) (\<lambda>_. True)"
  unfolding calculate_state_2_with_intercooling_def Let_def
  by (intro keeps_rules TrueI keeps_bnd [OF compression_stage_keeps])
     (auto intro: specific_volume_consistent)

lemma calculate_state_2_keeps: "keeps gk (calculate_state_2 p2) (\<lambda>_. True)"
  unfolding calculate_state_2_def
  by (intro keeps_rules TrueI keeps_bnd [OF calculate_state_2_isentropic_keeps]
      calculate_state_2_with_intercooling_keeps calculate_state_2_real_keeps)

lemma calculate_state_3_keeps: "keeps gk (calculate_state_3 p3 T3) (\<lambda>_. True)"
  unfolding calculate_state_3_def Let_def
  by (intro keeps_rules TrueI) (auto intro: specific_volume_consistent)

lemma calculate_state_4_isentropic_keeps:
  "keeps gk (calculate_state_4_isentropic p4) (consistent_for gk)"
  unfolding calculate_state_4_isentropic_def Let_def
  by (intro keeps_rules TrueI) (auto intro: specific_volume_consistent)

lemma calculate_state_4_real_keeps:
  "keeps gk (calculate_state_4_real p4 st4s) (\<lambda>_. True)"
  unfolding calculate_state_4_real_def Let_def split_def
  by (intro keeps_rules TrueI) (auto intro: specific_volume_consistent)

lemma calculate_state_4_keeps: "keeps gk (calculate_state_4 p4) (\<lambda>_. True)"
  unfolding calculate_state_4_def
  by (intro keeps_rules TrueI keeps_bnd [OF calculate_state_4_isentropic_keeps]
      calculate_state_4_real_keeps)

lemma regenerated_state_keeps:
  "keeps gk (regenerated_state ttls k st Tn) (\<lambda>_. True)"
  unfolding regenerated_state_def Let_def split_def
  by (intro keeps_rules TrueI) (auto intro: specific_volume_consistent)

lemma calculate_regeneration_keeps: "keeps gk (calculate_regeneration pinch_point) (\<lambda>_. True)"
  unfolding calculate_regeneration_def Let_def
  by (intro keeps_rules TrueI keeps_bnd [OF regenerated_state_keeps] regenerated_state_keeps)

lemma calculate_optimal_pressure_ratio_keeps:
  "keeps gk calculate_optimal_pressure_ratio (\<lambda>_. True)"
  unfolding calculate_optimal_pressure_ratio_def Let_def
  by (intro keeps_rules TrueI)

lemma process_properties_with_keeps:
  "keeps gk (process_properties_with hic reg2 reg4 reg24 h12 h13 mflow) (\<lambda>_. True)"
  unfolding process_properties_with_def Let_def split_def
  by (intro keeps_rules TrueI)

lemma calculate_process_properties_keeps:
  "keeps gk calculate_process_properties (\<lambda>_. True)"
  unfolding calculate_process_properties_def
  by (intro keeps_rules process_properties_with_keeps)

lemma set_parameters_keeps:
  "keeps gk (set_parameters regen reff ceff teff mflow icool ictemp icratio) (\<lambda>_. True)"
  unfolding set_parameters_def
  by (intro keeps_rules TrueI) simp

lemma keeps_snd:
  assumes "keeps (gas s) m Q" and "states_consistent s"
  shows "states_consistent (snd (m s)) \<and> gas (snd (m s)) = gas s"
  using assms unfolding keeps_def by (metis prod.collapse)

lemma perform_consistent:
  assumes "states_consistent slv"
  shows "states_consistent (perform c slv) \<and> gas (perform c slv) = gas slv"
proof (cases c)
  case (Set_parameters regen reff ceff teff mflow icool ictemp icratio)
  then show ?thesis using keeps_snd [OF set_parameters_keeps assms] by simp
next
  case (Calculate_state_1 p1 T1)
  then show ?thesis using keeps_snd [OF calculate_state_1_keeps assms] by simp
next
  case (Calculate_state_2 p2)
  then show ?thesis using keeps_snd [OF calculate_state_2_keeps assms] by simp
next
  case (Calculate_state_3 p3 T3)
  then show ?thesis using keeps_snd [OF calculate_state_3_keeps assms] by simp
next
  case (Calculate_state_4 p4)
  then show ?thesis using keeps_snd [OF calculate_state_4_keeps assms] by simp
next
  case (Calculate_regeneration pinch_point)
  then show ?thesis using keeps_snd [OF calculate_regeneration_keeps assms] by simp
next
  case Calculate_process_properties
  then show ?thesis using keeps_snd [OF calculate_process_properties_keeps assms] by simp
next
  case Calculate_optimal_pressure_ratio
  then show ?thesis using keeps_snd [OF calculate_optimal_pressure_ratio_keeps assms] by simp
qed

lemma run_consistent:
  "states_consistent slv \<Longrightarrow> states_consistent (run cs slv) \<and> gas (run cs slv) = gas slv"
proof (induction cs arbitrary: slv)
  case Nil
  then show ?case by simp
next
  case (Cons c cs)
  from perform_consistent [OF Cons.prems]
  have 1: "states_consistent (perform c slv)" and 2: "gas (perform c slv) = gas slv" by simp_all
  from Cons.IH [OF 1] 2 show ?case by simp
qed

lemma init_consistent:
  assumes "init gas_key use_const = Inr slv"
  shows "states_consistent slv \<and> gas slv = gas_key"
  using assms
  by (auto simp: init_def bindE_def states_consistent_def split: sum.splits)


text \<open>
  Exact arithmetic, finite values. On a solver that was constructed for a gas of the table, after any sequence of
  method calls (returning or raising), every state in the state map (1, 2, 3, 4 and 2s,
  4s, 2a, 2a\_s, 2b, 2c, 2c\_s, 2*, 4*) has the specific volume \<open>v = R T / p\<close> for the
  gas constant \<open>R\<close> of that gas, and \<open>v p / R = T\<close>.
\<close>

lemma exact_stored_states_consistent:
  assumes "init gas_key use_const = Inr slv"
    and "states (run cs slv) k = Some st"
  shows "\<exists>g. GAS_PROPERTIES gas_key = Some g
           \<and> v_val st = g_R g * T_val st / p_val st
           \<and> v_val st * p_val st / g_R g = T_val st"
proof -
  from init_consistent [OF assms(1)] have "states_consistent slv" and g: "gas slv = gas_key"
    by simp_all
  from run_consistent [OF this(1)] g
  have "states_consistent (run cs slv)" and "gas (run cs slv) = gas_key" by simp_all
  with assms(2) have "consistent_for gas_key st" by (auto simp: states_consistent_def)
  then show ?thesis
    by (auto simp: consistent_for_def consistent_def split: option.splits)
qed


lemma isentropic_outlet_stored:
  "states (run [Calculate_state_1 100000 293.15, Calculate_state_2 800000] air_solver)
     (StrKey ''2s'') = Some isentropic_outlet"
  by (simp add: calculate_state_2_def calculate_state_2_isentropic_def
      calculate_state_2_real_def calculate_state_1_def calc_defs
      specific_volume_def fdiv_def air_solver_def gas_entry_air isentropic_temperature_def
      entropy_change_def fpow_def flog_def Let_def isentropic_outlet_def)

lemma exact_stored_states_example:
  "init ''air'' True = Inr air_solver
     \<and> states (run [Calculate_state_1 100000 293.15, Calculate_state_2 800000] air_solver)
         (StrKey ''2s'') = Some isentropic_outlet
     \<and> (\<exists>g. GAS_PROPERTIES ''air'' = Some g
           \<and> v_val isentropic_outlet = g_R g * T_val isentropic_outlet / p_val isentropic_outlet
           \<and> v_val isentropic_outlet * p_val isentropic_outlet / g_R g
               = T_val isentropic_outlet)"
  using exact_stored_states_consistent [OF init_air isentropic_outlet_stored]
    init_air isentropic_outlet_stored
  by blast

end
